theory Spec2Isabelle
  imports Complex_Main "HOL-Library.Stream"
begin

section \<open>Data model\<close>

text \<open>
  The element type \<open>T\<close> of the C++ templates is a floating-point type. It is modelled by
  the real numbers: every arithmetic operation is exact. Where the C++ divides by a value
  that can be zero the model says so explicitly, because IEEE division by zero yields a
  non-finite value (NaN or an infinity) and not the \<open>0\<close> of HOL's total division.
\<close>

type_synonym vec = "real list"

text \<open>
  \<open>Matrix<T>\<close> is a dynamically sized dense matrix. It is kept as its row count
  together with the list of its columns, so that a matrix with no columns still has a
  row count; each column has \<open>rows\<close> entries.
\<close>

record 'a matrix =
  rows :: nat
  columns :: "'a list list"

definition cols :: "'a matrix \<Rightarrow> nat" where
  "cols M = length (columns M)"

definition col :: "'a matrix \<Rightarrow> nat \<Rightarrow> 'a list" where
  "col M j = columns M ! j"

datatype error =
    TooFewPoints nat nat      \<comment> \<open>runtime\_error: the number of points must be larger than the number of clusters\<close>
  | InvalidInitMethod         \<comment> \<open>runtime\_error: an invalid initialization method has been specified\<close>
  | SelectReachedEnd          \<comment> \<open>runtime\_error: SelectWeightedIndex() reached end\<close>
  | OutOfRange                \<comment> \<open>a column index outside the matrix\<close>
  | DivideByZero              \<comment> \<open>integer remainder by zero\<close>
  | Exit string               \<comment> \<open>cpu\_operations: message on std::cerr, then exit(1)\<close>

section \<open>Vector primitives used by the engine\<close>

definition vsub :: "vec \<Rightarrow> vec \<Rightarrow> vec" where
  "vsub a b = map2 (-) a b"

definition squaredNorm :: "vec \<Rightarrow> real" where
  "squaredNorm v = sum_list (map (\<lambda>x. x * x) v)"

definition norm_v :: "vec \<Rightarrow> real" where
  "norm_v v = sqrt (squaredNorm v)"

section \<open>The weighted sampler\<close>

text \<open>
  \<open>SelectWeightedIndex\<close> (kmeans.h, lines 168-201). The value drawn from
  \<open>drand48()\<close> is the parameter \<open>randomValue\<close>.
  \<^item> \<open>normalizedWeights = weights / weights.sum()\<close>;
  \<^item> \<open>weights_index_map[normalizedWeights(i)] = i\<close> for \<open>i = 0, 1, ...\<close>: a later index
    overwrites an earlier one that holds the same value;
  \<^item> \<open>std::sort\<close> of the normalized weights (ascending);
  \<^item> a scan of the sorted weights that returns \<open>weights_index_map[weight]\<close> for the first
    slot whose running total exceeds \<open>randomValue\<close>;
  \<^item> the \<open>runtime_error\<close> when the scan reaches the end.
  When the weights sum to zero the normalisation divides by zero. The weights that
  \<open>KMeansPPInit\<close> passes are squared norms, so all of them are zero then and every
  normalized weight is NaN; no comparison \<open>randomValue < runningTotal\<close> against NaN holds,
  the scan reaches the end and the code throws the same \<open>runtime_error\<close>. The model
  returns that error for every weight vector of sum zero.
\<close>

definition normalize_weights :: "vec \<Rightarrow> vec" where
  "normalize_weights weights = map (\<lambda>w. w / sum_list weights) weights"

definition record_index :: "vec \<Rightarrow> nat \<Rightarrow> (real \<rightharpoonup> nat) \<Rightarrow> (real \<rightharpoonup> nat)" where
  "record_index nw i m = m(nw ! i \<mapsto> i)"

definition weights_index_map :: "vec \<Rightarrow> (real \<rightharpoonup> nat)" where
  "weights_index_map nw = fold (record_index nw) [0..<length nw] Map.empty"

text \<open>\<open>std::map::operator[]\<close> on an absent key inserts and returns the value \<open>0\<close>.\<close>

definition map_index :: "(real \<rightharpoonup> nat) \<Rightarrow> real \<Rightarrow> nat" where
  "map_index m w = (case m w of Some i \<Rightarrow> i | None \<Rightarrow> 0)"

fun scan_weights :: "vec \<Rightarrow> real \<Rightarrow> real \<Rightarrow> real option" where
  "scan_weights [] runningTotal randomValue = None"
| "scan_weights (w # ws) runningTotal randomValue =
     (if randomValue < runningTotal + w then Some w
      else scan_weights ws (runningTotal + w) randomValue)"

definition SelectWeightedIndex :: "vec \<Rightarrow> real \<Rightarrow> error + nat" where
  "SelectWeightedIndex weights randomValue =
     (if sum_list weights = 0 then Inl SelectReachedEnd
      else
        let normalizedWeights = normalize_weights weights;
            m = weights_index_map normalizedWeights
        in case scan_weights (sort normalizedWeights) 0 randomValue of
             Some weight \<Rightarrow> Inr (map_index m weight)
           | None \<Rightarrow> Inl SelectReachedEnd)"

text \<open>
  The sampler as the specification words it: the first index, in the weights' original
  order, whose cumulative sum exceeds the drawn value.
\<close>

fun first_exceeding :: "vec \<Rightarrow> real \<Rightarrow> real \<Rightarrow> nat \<Rightarrow> nat option" where
  "first_exceeding [] cumulative r i = None"
| "first_exceeding (w # ws) cumulative r i =
     (if r < cumulative + w then Some i else first_exceeding ws (cumulative + w) r (Suc i))"

definition spec_SelectWeightedIndex :: "vec \<Rightarrow> real \<Rightarrow> nat option" where
  "spec_SelectWeightedIndex weights r = first_exceeding (normalize_weights weights) 0 r 0"

section \<open>The process-wide random number generators\<close>

text \<open>
  The engine draws from two generators of the C library, both process-wide state:
  \<^item> \<open>drand48()\<close>, seeded by \<open>srand48\<close>: the 48-bit linear congruential generator
    \<open>X' = (0x5DEECE66D * X + 0xB) mod 2^48\<close>, returning \<open>X' / 2^48\<close>; \<open>srand48(s)\<close> sets
    \<open>X\<close> to the low 32 bits of \<open>s\<close> followed by \<open>0x330E\<close>;
  \<^item> \<open>rand()\<close>, seeded by \<open>srand\<close>, which kmeans.h never calls. Its algorithm is the
    library's own; its state is kept as the stream of values it will return from now on.
  \<open>clock\<close> is what \<open>time(NULL)\<close> returns, and \<open>uninit\<close> is the content of storage that
  \<open>resize\<close> or a sized constructor allocates and does not initialise.
\<close>

record env =
  drand48_X :: nat
  rand_future :: "nat stream"
  clock :: nat
  uninit :: "nat \<Rightarrow> real"

definition srand48 :: "nat \<Rightarrow> nat" where
  "srand48 seedval = (seedval mod 2 ^ 32) * 2 ^ 16 + 0x330E"

definition drand48_step :: "nat \<Rightarrow> nat" where
  "drand48_step x = (0x5DEECE66D * x + 0xB) mod 2 ^ 48"

definition drand48 :: "env \<Rightarrow> real \<times> env" where
  "drand48 e = (let x = drand48_step (drand48_X e) in (real x / 2 ^ 48, e\<lparr>drand48_X := x\<rparr>))"

definition rand :: "env \<Rightarrow> nat \<times> env" where
  "rand e = (shd (rand_future e), e\<lparr>rand_future := stl (rand_future e)\<rparr>)"

section \<open>The K-Means engine\<close>

text \<open>
  The private fields of \<open>class KMeans\<close> (kmeans.h, lines 428-441). The field
  \<open>centers\<close> is the source's \<^verbatim>\<open>centers_\<close>.
\<close>

record KMeans =
  Labels :: vec
  Random :: bool
  InitMethod :: int
  K :: nat
  centers :: "real matrix"

text \<open>\<open>enum InitMethodEnum{RANDOM, KMEANSPP, MANUAL}\<close>; the field \<open>InitMethod\<close> is an \<open>int\<close>.\<close>

definition RANDOM :: int where "RANDOM = 0"
definition KMEANSPP :: int where "KMEANSPP = 1"
definition MANUAL :: int where "MANUAL = 2"

text \<open>The conversion of the \<open>int k\<close> of \<open>Fit\<close> to the \<open>unsigned int K\<close>.\<close>

definition unsigned_int :: "int \<Rightarrow> nat" where
  "unsigned_int k = nat (k mod 2 ^ 32)"

definition set_col :: "'a matrix \<Rightarrow> nat \<Rightarrow> 'a list \<Rightarrow> 'a matrix" where
  "set_col M j v = M\<lparr>columns := (columns M)[j := v]\<rparr>"

text \<open>
  \<open>resize\<close> keeps the coefficients when the shape does not change and leaves them
  uninitialised otherwise.
\<close>

definition resize_matrix :: "(nat \<Rightarrow> real) \<Rightarrow> nat \<Rightarrow> nat \<Rightarrow> real matrix \<Rightarrow> real matrix" where
  "resize_matrix junk r c M =
     (if rows M = r \<and> cols M = c then M
      else \<lparr>rows = r, columns = map (\<lambda>j. map (\<lambda>i. junk (j * r + i)) [0..<r]) [0..<c]\<rparr>)"

definition resize_vec :: "(nat \<Rightarrow> real) \<Rightarrow> nat \<Rightarrow> vec \<Rightarrow> vec" where
  "resize_vec junk n v = (if length v = n then v else map junk [0..<n])"

subsection \<open>Queries on the labels\<close>

text \<open>\<open>GetIndicesWithLabel\<close> (lines 140-152).\<close>

definition GetIndicesWithLabel :: "KMeans \<Rightarrow> real \<Rightarrow> nat list" where
  "GetIndicesWithLabel km label = filter (\<lambda>i. Labels km ! i = label) [0..<length (Labels km)]"

text \<open>\<open>CheckChanged\<close> (lines 204-216).\<close>

definition CheckChanged :: "vec \<Rightarrow> vec \<Rightarrow> bool" where
  "CheckChanged labels oldLabels = list_ex (\<lambda>i. labels ! i \<noteq> oldLabels ! i) [0..<length labels]"

subsection \<open>Assignment\<close>

text \<open>
  \<open>FindClosestCluster\<close> (lines 255-270). \<open>minDist\<close> starts at
  \<open>std::numeric_limits<T>::max()\<close>; the reals have no largest element, so the running
  minimum is a \<open>real option\<close> whose \<open>None\<close> is that sentinel, above every distance.
\<close>

definition below :: "real \<Rightarrow> real option \<Rightarrow> bool" where
  "below d minDist = (case minDist of None \<Rightarrow> True | Some m \<Rightarrow> d < m)"

definition closer :: "(nat \<Rightarrow> real) \<Rightarrow> nat \<Rightarrow> nat \<times> real option \<Rightarrow> nat \<times> real option" where
  "closer distance i s =
     (case s of (closestCluster, minDist) \<Rightarrow>
        if below (distance i) minDist then (i, Some (distance i)) else (closestCluster, minDist))"

definition center_dist :: "KMeans \<Rightarrow> vec \<Rightarrow> nat \<Rightarrow> real" where
  "center_dist km queryPoint i = norm_v (vsub (col (centers km) i) queryPoint)"

definition FindClosestCluster :: "KMeans \<Rightarrow> vec \<Rightarrow> nat \<Rightarrow> nat" where
  "FindClosestCluster km queryPoint num_cluster =
     fst (fold (closer (center_dist km queryPoint)) [0..<num_cluster] (0, None))"

text \<open>\<open>AssignLabels\<close> (lines 218-226).\<close>

definition assign_point :: "real matrix \<Rightarrow> nat \<Rightarrow> KMeans \<Rightarrow> KMeans" where
  "assign_point input_data point km =
     (let closestCluster = FindClosestCluster km (col input_data point) (K km)
      in km\<lparr>Labels := (Labels km)[point := real closestCluster]\<rparr>)"

definition AssignLabels :: "KMeans \<Rightarrow> real matrix \<Rightarrow> KMeans" where
  "AssignLabels km input_data = fold (assign_point input_data) [0..<cols input_data] km"

subsection \<open>Update\<close>

text \<open>\<open>classPoints.rowwise().mean()\<close>: one mean per row, over the columns.\<close>

definition rowwise_mean :: "real matrix \<Rightarrow> vec" where
  "rowwise_mean M = map (\<lambda>i. sum_list (map (\<lambda>c. c ! i) (columns M)) / real (cols M)) [0..<rows M]"

text \<open>
  \<open>EstimateNewCenters\<close> (lines 228-253). \<open>update_center\<close> is the body of its loop and
  \<open>new_center\<close> the vector \<open>center\<close> that the body computes and then stores.
\<close>

definition new_center :: "KMeans \<Rightarrow> real matrix \<Rightarrow> real matrix \<Rightarrow> nat \<Rightarrow> vec" where
  "new_center km input_data oldCenters cluster =
     (let indicesWithLabel = GetIndicesWithLabel km (real cluster);
          classPoints = \<lparr>rows = rows input_data, columns = map (col input_data) indicesWithLabel\<rparr>
      in if cols classPoints = 0 then col oldCenters cluster
         else rowwise_mean classPoints)"

definition update_center :: "real matrix \<Rightarrow> real matrix \<Rightarrow> nat \<Rightarrow> KMeans \<Rightarrow> KMeans" where
  "update_center input_data oldCenters cluster km =
     (let center = new_center km input_data oldCenters cluster
      in km\<lparr>centers := set_col (centers km) cluster center\<rparr>)"

definition EstimateNewCenters :: "KMeans \<Rightarrow> real matrix \<Rightarrow> KMeans" where
  "EstimateNewCenters km input_data =
     (let oldCenters = centers km
      in fold (update_center input_data oldCenters) [0..<K km] km)"

subsection \<open>Initialisation\<close>

text \<open>
  \<open>GetRandomPointInBounds\<close> (lines 331-346). \<open>minCoeff\<close> and \<open>maxCoeff\<close> of a row
  without entries are not defined by the matrix library; \<open>Cluster\<close> calls the
  initialiser only when the dataset has at least \<open>K\<close> columns, and \<open>RandomInit\<close> draws
  a point only when \<open>K\<close> is positive, so the case does not arise there.
\<close>

definition row_of :: "'a matrix \<Rightarrow> nat \<Rightarrow> 'a list" where
  "row_of M i = map (\<lambda>c. c ! i) (columns M)"

definition minCoeff :: "vec \<Rightarrow> real" where
  "minCoeff v = (case v of [] \<Rightarrow> 0 | x # xs \<Rightarrow> fold min xs x)"

definition maxCoeff :: "vec \<Rightarrow> real" where
  "maxCoeff v = (case v of [] \<Rightarrow> 0 | x # xs \<Rightarrow> fold max xs x)"

definition random_coordinate :: "vec \<Rightarrow> vec \<Rightarrow> nat \<Rightarrow> vec \<times> env \<Rightarrow> vec \<times> env" where
  "random_coordinate minVector maxVector i s =
     (case s of (randomVector, e) \<Rightarrow>
        let range = maxVector ! i - minVector ! i;
            (d, e') = drand48 e;
            randomValue = d * range + minVector ! i
        in (randomVector[i := randomValue], e'))"

definition GetRandomPointInBounds :: "real matrix \<Rightarrow> env \<Rightarrow> vec \<times> env" where
  "GetRandomPointInBounds input_data e =
     (let minVector = map (\<lambda>i. minCoeff (row_of input_data i)) [0..<rows input_data];
          maxVector = map (\<lambda>i. maxCoeff (row_of input_data i)) [0..<rows input_data];
          randomVector = replicate (length minVector) 0
      in fold (random_coordinate minVector maxVector) [0..<length randomVector] (randomVector, e))"

text \<open>\<open>RandomInit\<close> (lines 348-355); \<open>random_center\<close> is the body of its loop.\<close>

definition random_center :: "real matrix \<Rightarrow> nat \<Rightarrow> KMeans \<times> env \<Rightarrow> KMeans \<times> env" where
  "random_center input_data i s =
     (case s of (km, e) \<Rightarrow>
        let (p, e') = GetRandomPointInBounds input_data e
        in (km\<lparr>centers := set_col (centers km) i p\<rparr>, e'))"

definition RandomInit :: "KMeans \<Rightarrow> env \<Rightarrow> real matrix \<Rightarrow> KMeans \<times> env" where
  "RandomInit km e input_data = fold (random_center input_data) [0..<K km] (km, e)"

text \<open>
  \<open>KMeansPPInit\<close> (lines 357-380). \<open>pp_weight\<close> is the body of the inner loop and
  \<open>pp_centers\<close> the outer loop over the clusters \<open>1, ..., K - 1\<close>, which stops at the
  first error of the sampler. The first centre is indexed by \<open>rand() % cols\<close>: a remainder
  by zero when the dataset has no column, and a write outside the centroid matrix when
  that has no column.
\<close>

definition pp_weight :: "KMeans \<Rightarrow> real matrix \<Rightarrow> nat \<Rightarrow> nat \<Rightarrow> vec \<Rightarrow> vec" where
  "pp_weight km input_data cluster i weights =
     (let currentPoint = col input_data i;
          closestCluster = FindClosestCluster km currentPoint cluster
      in weights[i := squaredNorm (vsub (col (centers km) closestCluster) currentPoint)])"

fun pp_centers ::
  "nat list \<Rightarrow> real matrix \<Rightarrow> vec \<Rightarrow> KMeans \<Rightarrow> env \<Rightarrow> (error \<times> KMeans \<times> env) + (KMeans \<times> env)" where
  "pp_centers [] input_data weights km e = Inr (km, e)"
| "pp_centers (cluster # rest) input_data weights km e =
     (let weights' = fold (pp_weight km input_data cluster) [0..<cols input_data] weights;
          (randomValue, e') = drand48 e
      in case SelectWeightedIndex weights' randomValue of
           Inl err \<Rightarrow> Inl (err, km, e')
         | Inr selectedPointId \<Rightarrow>
             pp_centers rest input_data weights'
               (km\<lparr>centers := set_col (centers km) cluster (col input_data selectedPointId)\<rparr>) e')"

definition KMeansPPInit ::
  "KMeans \<Rightarrow> env \<Rightarrow> real matrix \<Rightarrow> (error \<times> KMeans \<times> env) + (KMeans \<times> env)" where
  "KMeansPPInit km e input_data =
     (let (v, e') = rand e
      in if cols input_data = 0 then Inl (DivideByZero, km, e')
         else
           let randomId = v mod cols input_data;
               p = col input_data randomId
           in if cols (centers km) = 0 then Inl (OutOfRange, km, e')
              else
                let km' = km\<lparr>centers := set_col (centers km) 0 p\<rparr>;
                    weights = map (uninit e') [0..<cols input_data]
                in pp_centers [1..<K km] input_data weights km' e')"

subsection \<open>The main loop\<close>

text \<open>
  The \<open>do ... while(changed)\<close> of \<open>Cluster\<close> (lines 123-134). It has no iteration cap and
  need not terminate: \<open>None\<close> is the run that never leaves the loop. The result carries
  the iteration count that \<open>Cluster\<close> prints.
\<close>

partial_function (option) Cluster_loop ::
  "KMeans \<Rightarrow> real matrix \<Rightarrow> vec \<Rightarrow> nat \<Rightarrow> (KMeans \<times> nat) option" where
  "Cluster_loop km input_data oldLabels iter =
     (let km1 = AssignLabels km input_data;
          km2 = EstimateNewCenters km1 input_data;
          changed = CheckChanged (Labels km2) oldLabels
      in if changed then Cluster_loop km2 input_data (Labels km2) (iter + 1)
         else Some (km2, iter + 1))"

text \<open>
  \<open>Cluster\<close> (lines 74-138). An exception leaves the method with the object and the
  process state as they are at the \<open>throw\<close>: \<open>Inl (error, object, process state)\<close>.
  A normal return is \<open>Inr (object, process state, iterations)\<close>.
\<close>

type_synonym outcome = "(error \<times> KMeans \<times> env) + (KMeans \<times> env \<times> nat)"

definition initialise ::
  "KMeans \<Rightarrow> env \<Rightarrow> real matrix \<Rightarrow> (error \<times> KMeans \<times> env) + (KMeans \<times> env)" where
  "initialise km e input_data =
     (if InitMethod km = RANDOM then Inr (RandomInit km e input_data)
      else if InitMethod km = KMEANSPP then KMeansPPInit km e input_data
      else if InitMethod km = MANUAL then Inr (km, e)
      else Inl (InvalidInitMethod, km, e))"

definition Cluster :: "KMeans \<Rightarrow> env \<Rightarrow> real matrix \<Rightarrow> outcome option" where
  "Cluster km e input_data =
     (if cols input_data < K km then Some (Inl (TooFewPoints (cols input_data) (K km), km, e))
      else
        let e1 = e\<lparr>drand48_X := srand48 (if Random km then clock e else 0)\<rparr>
        in case initialise km e1 input_data of
             Inl failure \<Rightarrow> Some (Inl failure)
           | Inr (km1, e2) \<Rightarrow>
               let oldLabels = replicate (cols input_data) 0;
                   km2 = km1\<lparr>Labels := resize_vec (uninit e2) (cols input_data) (Labels km1)\<rparr>
               in case Cluster_loop km2 input_data oldLabels 0 of
                    None \<Rightarrow> None
                  | Some (km3, iter) \<Rightarrow> Some (Inr (km3, e2, iter)))"

text \<open>\<open>Fit\<close> (lines 68-72).\<close>

definition Fit :: "KMeans \<Rightarrow> env \<Rightarrow> real matrix \<Rightarrow> int \<Rightarrow> outcome option" where
  "Fit km e input_data k =
     (let km1 = km\<lparr>K := unsigned_int k\<rparr>;
          km2 = km1\<lparr>centers := resize_matrix (uninit e) (rows input_data) (K km1) (centers km1)\<rparr>
      in Cluster km2 e input_data)"

subsection \<open>Diagnostics\<close>

text \<open>
  \<open>ComputeMLEVariance\<close> (lines 393-422). The division
  \<open>variance /= static_cast<T>(indicesWithLabel.size())\<close> is executed for every cluster,
  also after the branch \<open>if(indicesWithLabel.size() == 0) variance = 0\<close>. A floating-point
  division by zero gives a non-finite value, and a sum with a non-finite term is
  non-finite: \<open>None\<close> is the non-finite result.
\<close>

definition fdiv :: "real \<Rightarrow> real \<Rightarrow> real option" where
  "fdiv x y = (if y = 0 then None else Some (x / y))"

definition fadd :: "real option \<Rightarrow> real option \<Rightarrow> real option" where
  "fadd a b = (case a of None \<Rightarrow> None | Some x \<Rightarrow> (case b of None \<Rightarrow> None | Some y \<Rightarrow> Some (x + y)))"

definition add_error :: "real matrix \<Rightarrow> vec \<Rightarrow> nat list \<Rightarrow> nat \<Rightarrow> real \<Rightarrow> real" where
  "add_error input_data clusterCenter indicesWithLabel j variance =
     variance + norm_v (vsub clusterCenter (col input_data (indicesWithLabel ! j)))"

definition cluster_variance :: "KMeans \<Rightarrow> real matrix \<Rightarrow> nat \<Rightarrow> real option" where
  "cluster_variance km input_data i =
     (let indicesWithLabel = GetIndicesWithLabel km (real i);
          variance = (if length indicesWithLabel = 0 then 0 else 0);
          clusterCenter = col (centers km) i;
          variance' = fold (add_error input_data clusterCenter indicesWithLabel)
                        [0..<length indicesWithLabel] variance
      in fdiv variance' (real (length indicesWithLabel)))"

definition add_variance :: "KMeans \<Rightarrow> real matrix \<Rightarrow> nat \<Rightarrow> real option \<Rightarrow> real option" where
  "add_variance km input_data i overall_variance =
     fadd overall_variance (cluster_variance km input_data i)"

definition ComputeMLEVariance :: "KMeans \<Rightarrow> real matrix \<Rightarrow> real option" where
  "ComputeMLEVariance km input_data = fold (add_variance km input_data) [0..<K km] (Some 0)"

text \<open>
  The diagnostic as the specification words it: per cluster the mean of the distances of
  its members to its centroid, zero for a cluster without members, summed over the
  clusters.
\<close>

definition spec_cluster_variance :: "KMeans \<Rightarrow> real matrix \<Rightarrow> nat \<Rightarrow> real" where
  "spec_cluster_variance km input_data c =
     (let members = GetIndicesWithLabel km (real c)
      in if members = [] then 0
         else sum_list (map (\<lambda>p. norm_v (vsub (col (centers km) c) (col input_data p))) members)
                / real (length members))"

definition spec_MLEVariance :: "KMeans \<Rightarrow> real matrix \<Rightarrow> real" where
  "spec_MLEVariance km input_data = sum_list (map (spec_cluster_variance km input_data) [0..<K km])"

section \<open>The matrix operations of the collaborator library\<close>

text \<open>
  \<open>CpuOperations::Add\<close> on two matrices (cpu\_operations.h, lines 87-102) and
  \<open>CpuOperations::LogicalAnd\<close> on two boolean matrices (lines 170-179). \<open>exit(1)\<close> after
  a message on \<open>std::cerr\<close> is the error \<open>Exit\<close> with that message.
\<close>

definition Add :: "real matrix \<Rightarrow> real matrix \<Rightarrow> error + real matrix" where
  "Add a b =
     (if rows a \<noteq> rows b \<or> cols a \<noteq> cols b then Inl (Exit ''MATRICIES ARE NOT THE SAME SIZE'')
      else if rows a = 0 then Inl (Exit ''MATRICIES ARE EMPTY'')
      else Inr \<lparr>rows = rows a, columns = map2 (map2 (+)) (columns a) (columns b)\<rparr>)"

definition LogicalAnd :: "bool matrix \<Rightarrow> bool matrix \<Rightarrow> error + bool matrix" where
  "LogicalAnd a b =
     (if rows a \<noteq> rows b \<or> cols a \<noteq> cols b then Inl (Exit ''MATRICES ARE NOT THE SAME SIZE!'')
      else Inr \<lparr>rows = rows a, columns = map2 (map2 (\<and>)) (columns a) (columns b)\<rparr>)"

text \<open>Their siblings \<open>Subtract\<close> (lines 111-122) and \<open>LogicalOr\<close> (lines 134-146).\<close>

definition Subtract :: "real matrix \<Rightarrow> real matrix \<Rightarrow> error + real matrix" where
  "Subtract a b =
     (if rows a \<noteq> rows b \<or> cols a \<noteq> cols b then Inl (Exit ''MATRICES ARE NOT THE SAME SIZE!'')
      else if rows b = 0 \<or> cols b = 0 \<or> rows a = 0 \<or> cols a = 0
        then Inl (Exit ''EMPTY MATRIX AS ARGUMENT!'')
      else Inr \<lparr>rows = rows a, columns = map2 (map2 (-)) (columns a) (columns b)\<rparr>)"

definition LogicalOr :: "bool matrix \<Rightarrow> bool matrix \<Rightarrow> error + bool matrix" where
  "LogicalOr a b =
     (if rows a \<noteq> rows b \<or> cols a \<noteq> cols b then Inl (Exit ''MATRICES ARE NOT THE SAME SIZE!'')
      else if rows b = 0 \<or> cols b = 0 \<or> rows a = 0 \<or> cols a = 0
        then Inl (Exit ''EMPTY MATRIX AS ARGUMENT!'')
      else Inr \<lparr>rows = rows a, columns = map2 (map2 (\<or>)) (columns a) (columns b)\<rparr>)"

section \<open>Derived notions and example inputs\<close>

text \<open>\<open>SetRandom\<close> and \<open>SetInitMethod\<close> (lines 382-390), \<open>GetLabels\<close> (lines 424-426).\<close>

definition SetRandom :: "KMeans \<Rightarrow> bool \<Rightarrow> KMeans" where
  "SetRandom km r = km\<lparr>Random := r\<rparr>"

definition SetInitMethod :: "KMeans \<Rightarrow> int \<Rightarrow> KMeans" where
  "SetInitMethod km method = km\<lparr>InitMethod := method\<rparr>"


definition GetLabels :: "KMeans \<Rightarrow> vec" where
  "GetLabels km = Labels km"

text \<open>Every label is the number of a cluster, that is, lies in \<open>[0, K)\<close>.\<close>

definition labels_in_range :: "KMeans \<Rightarrow> bool" where
  "labels_in_range km = list_all (\<lambda>l. \<exists>c<K km. l = real c) (Labels km)"

text \<open>
  Two successive calls of \<open>Fit\<close> on one engine with the same input, in one process: the
  labels that \<open>GetLabels\<close> returns after the first and after the second call.
\<close>

definition Fit_twice :: "KMeans \<Rightarrow> env \<Rightarrow> real matrix \<Rightarrow> int \<Rightarrow> (vec \<times> vec) option" where
  "Fit_twice km e input_data k =
     (case Fit km e input_data k of
        Some (Inr (km1, e1, n1)) \<Rightarrow>
          (case Fit km1 e1 input_data k of
             Some (Inr (km2, e2, n2)) \<Rightarrow> Some (GetLabels km1, GetLabels km2)
           | _ \<Rightarrow> None)
      | _ \<Rightarrow> None)"

text \<open>
  Two engines that differ at most in their labels and in the content of the centroid
  columns outside \<open>S\<close>.
\<close>

definition agree :: "nat set \<Rightarrow> KMeans \<Rightarrow> KMeans \<Rightarrow> bool" where
  "agree S km km2 =
     (K km = K km2 \<and> Random km = Random km2 \<and> InitMethod km = InitMethod km2
      \<and> rows (centers km) = rows (centers km2)
      \<and> length (columns (centers km)) = length (columns (centers km2))
      \<and> (\<forall>i\<in>S. i < length (columns (centers km)) \<longrightarrow>
            columns (centers km) ! i = columns (centers km2) ! i))"

text \<open>
  Example inputs. \<open>fresh_engine\<close> is an engine before its first \<open>Fit\<close>, after
  \<open>SetRandom(false)\<close>, with the default initialisation method (\<open>Fit\<close> sets \<open>K\<close> and
  the shape of the centroid matrix before anything reads them); \<open>engine_1d\<close> is an
  engine over one-feature data with the fixed seed. \<open>process_start\<close> is a process whose
  \<open>rand()\<close> returns the odd value 1804289383 and then the even value 846930886, as the
  GNU C library does from its default seed.
\<close>

definition fresh_engine :: KMeans where
  "fresh_engine =
     \<lparr>Labels = [], Random = False, InitMethod = KMEANSPP, K = 0,
      centers = \<lparr>rows = 0, columns = []\<rparr>\<rparr>"

definition engine_1d :: "vec \<Rightarrow> int \<Rightarrow> nat \<Rightarrow> vec list \<Rightarrow> KMeans" where
  "engine_1d ls m k cs =
     \<lparr>Labels = ls, Random = False, InitMethod = m, K = k, centers = \<lparr>rows = 1, columns = cs\<rparr>\<rparr>"

definition process_start :: env where
  "process_start =
     \<lparr>drand48_X = 0, rand_future = 1804289383 ## 846930886 ## sconst 0, clock = 0,
      uninit = (\<lambda>_. 0)\<rparr>"

definition after_first_fit :: env where
  "after_first_fit =
     \<lparr>drand48_X = drand48_step (srand48 0), rand_future = 846930886 ## sconst 0, clock = 0,
      uninit = (\<lambda>_. 0)\<rparr>"

definition after_second_fit :: env where
  "after_second_fit =
     \<lparr>drand48_X = drand48_step (srand48 0), rand_future = sconst 0, clock = 0,
      uninit = (\<lambda>_. 0)\<rparr>"

text \<open>One-feature datasets: a single sample, the samples 0 and 10, and the sample 5 twice.\<close>

definition one_point :: "real matrix" where
  "one_point = \<lparr>rows = 1, columns = [[7]]\<rparr>"

definition two_points :: "real matrix" where
  "two_points = \<lparr>rows = 1, columns = [[0], [10]]\<rparr>"

definition coincident_points :: "real matrix" where
  "coincident_points = \<lparr>rows = 1, columns = [[5], [5]]\<rparr>"

section \<open>Properties of the weighted sampler\<close>

lemma sum_list_insort: "sum_list (insort x xs) = x + sum_list (xs :: real list)"
  by (induction xs) auto

lemma sum_list_sort: "sum_list (sort xs) = sum_list (xs :: real list)"
  by (induction xs) (auto simp: sum_list_insort)

lemma sum_list_normalize_weights:
  "sum_list weights \<noteq> 0 \<Longrightarrow> sum_list (normalize_weights weights) = 1"
proof -
  assume nz: "sum_list weights \<noteq> 0"
  have "sum_list (map (\<lambda>w. w / c) ws) = sum_list ws / c" for c :: real and ws
    by (induction ws) (auto simp: add_divide_distrib)
  with nz show ?thesis by (simp add: normalize_weights_def)
qed

text \<open>The map built by the first loop sends a value to the last index that holds it.\<close>

lemma index_map_fold_Suc:
  "fold (record_index nw) [0..<Suc n] Map.empty =
     (fold (record_index nw) [0..<n] Map.empty)(nw ! n \<mapsto> n)"
proof -
  have "fold (record_index nw) [0..<Suc n] Map.empty =
          record_index nw n (fold (record_index nw) [0..<n] Map.empty)"
    by simp
  then show ?thesis by (simp only: record_index_def)
qed

lemma index_map_fold_Some:
  "fold (record_index nw) [0..<n] Map.empty v = Some j \<Longrightarrow>
     j < n \<and> nw ! j = v \<and> (\<forall>i<n. nw ! i = v \<longrightarrow> i \<le> j)"
proof (induction n arbitrary: j)
  case 0
  then show ?case by simp
next
  case (Suc n)
  let ?m = "fold (record_index nw) [0..<n] Map.empty"
  from Suc.prems have upd: "(?m(nw ! n \<mapsto> n)) v = Some j"
    by (simp only: index_map_fold_Suc)
  show ?case
  proof (cases "nw ! n = v")
    case True
    with upd have "j = n" by simp
    with True show ?thesis by auto
  next
    case False
    with upd have "?m v = Some j" by simp
    from Suc.IH [OF this] False show ?thesis
      by (auto simp: less_Suc_eq)
  qed
qed

lemma index_map_fold_dom:
  "i < n \<Longrightarrow> \<exists>j. fold (record_index nw) [0..<n] Map.empty (nw ! i) = Some j"
proof (induction n)
  case 0
  then show ?case by simp
next
  case (Suc n)
  let ?m = "fold (record_index nw) [0..<n] Map.empty"
  have step: "fold (record_index nw) [0..<Suc n] Map.empty (nw ! i) = (?m(nw ! n \<mapsto> n)) (nw ! i)"
    by (simp only: index_map_fold_Suc)
  show ?case
  proof (cases "nw ! n = nw ! i")
    case True
    with step show ?thesis by simp
  next
    case False
    with Suc.prems have "i < n" by (cases "i = n") auto
    from Suc.IH [OF this] obtain j where "?m (nw ! i) = Some j" ..
    with step False show ?thesis by simp
  qed
qed

lemma weights_index_map_Some:
  "weights_index_map nw v = Some j \<Longrightarrow>
     j < length nw \<and> nw ! j = v \<and> (\<forall>i<length nw. nw ! i = v \<longrightarrow> i \<le> j)"
  unfolding weights_index_map_def by (rule index_map_fold_Some)

lemma weights_index_map_dom:
  "v \<in> set nw \<Longrightarrow> \<exists>j. weights_index_map nw v = Some j"
  unfolding weights_index_map_def in_set_conv_nth using index_map_fold_dom [of _ "length nw" nw]
  by blast

lemma scan_weights_mem: "scan_weights xs t r = Some w \<Longrightarrow> w \<in> set xs"
  by (induction xs arbitrary: t) (auto split: if_splits)

text \<open>
  The scan finds a slot as soon as the drawn value lies below the sum of the weights, and
  the slot is the first one whose cumulative sum exceeds the drawn value.
\<close>

lemma first_exceeding_total:
  "t \<le> r \<Longrightarrow> r < t + sum_list xs \<Longrightarrow>
     \<exists>i. first_exceeding xs t r k = Some i \<and> k \<le> i \<and> i < k + length xs
        \<and> scan_weights xs t r = Some (xs ! (i - k))"
proof (induction xs arbitrary: t k)
  case Nil
  then show ?case by simp
next
  case (Cons w ws)
  show ?case
  proof (cases "r < t + w")
    case True
    then show ?thesis by simp
  next
    case False
    from Cons.prems have "r < (t + w) + sum_list ws" by (simp add: add.assoc)
    moreover from False have "t + w \<le> r" by simp
    ultimately obtain i where
      "first_exceeding ws (t + w) r (Suc k) = Some i" "Suc k \<le> i" "i < Suc k + length ws"
      "scan_weights ws (t + w) r = Some (ws ! (i - Suc k))"
      using Cons.IH [of "t + w" "Suc k"] by blast
    moreover from \<open>Suc k \<le> i\<close> have "i - k = Suc (i - Suc k)" by arith
    ultimately show ?thesis using False by simp
  qed
qed

lemma SelectWeightedIndex_Inr:
  assumes "SelectWeightedIndex weights r = Inr j"
  shows "j < length weights \<and>
         (\<forall>i<length weights. normalize_weights weights ! i = normalize_weights weights ! j \<longrightarrow> i \<le> j)"
proof -
  let ?nw = "normalize_weights weights"
  from assms obtain w where w: "scan_weights (sort ?nw) 0 r = Some w"
      and j: "j = map_index (weights_index_map ?nw) w"
    by (auto simp: SelectWeightedIndex_def Let_def split: if_splits option.splits)
  from scan_weights_mem [OF w] have "w \<in> set ?nw" by simp
  from weights_index_map_dom [OF this] obtain j' where j': "weights_index_map ?nw w = Some j'" ..
  with j have "j' = j" by (simp add: map_index_def)
  with weights_index_map_Some [OF j'] show ?thesis
    by (simp add: normalize_weights_def)
qed

lemmas sampler_defs =
  SelectWeightedIndex_def normalize_weights_def weights_index_map_def record_index_def
  map_index_def

text \<open>
  Claim C1, as the specification states it: for every weight vector with positive sum and
  every drawn value \<open>r\<close> in \<open>[0,1)\<close>, \<open>SelectWeightedIndex\<close> returns the first index,
  in the weights' original order, whose cumulative normalized sum exceeds \<open>r\<close>, unaffected
  by any sorting. The code sorts the normalized weights before it accumulates them: for the
  weights \<open>[3, 1]\<close> and \<open>r = 1/10\<close> the first index in original order is \<open>0\<close> (the
  cumulative sum there is \<open>3/4\<close>), and the code returns index \<open>1\<close>, the index of the
  smallest weight \<open>1/4\<close>, which comes first after sorting.
\<close>

theorem SelectWeightedIndex_original_order_counterexample:
  "0 < sum_list [3, 1 :: real] \<and> (0::real) \<le> 1 / 10 \<and> (1::real) / 10 < 1
   \<and> spec_SelectWeightedIndex [3, 1] (1 / 10) = Some 0
   \<and> SelectWeightedIndex [3, 1] (1 / 10) = Inr 1"
  by (simp add: sampler_defs spec_SelectWeightedIndex_def)

text \<open>
  Claim C1, amended: for every weight vector with positive sum and every drawn value \<open>r\<close>
  in \<open>[0,1)\<close>, \<open>SelectWeightedIndex\<close> returns an original index \<open>j\<close> whose normalized
  weight is the one in the first slot \<open>i\<close> of the ascending sorted normalized weights for
  which the cumulative sum of the sorted weights through \<open>i\<close> exceeds \<open>r\<close>; when the
  normalized weights are pairwise distinct, \<open>j\<close> is the only index holding that weight.
\<close>

theorem SelectWeightedIndex_sorted_slot:
  assumes "0 < sum_list weights" and "0 \<le> r" and "r < 1"
  shows "\<exists>i j. first_exceeding (sort (normalize_weights weights)) 0 r 0 = Some i
           \<and> i < length weights
           \<and> SelectWeightedIndex weights r = Inr j
           \<and> j < length weights
           \<and> normalize_weights weights ! j = sort (normalize_weights weights) ! i
           \<and> (distinct (normalize_weights weights) \<longrightarrow>
                (\<forall>j'<length weights.
                    normalize_weights weights ! j' = sort (normalize_weights weights) ! i \<longrightarrow> j' = j))"
proof -
  let ?nw = "normalize_weights weights"
  have len: "length ?nw = length weights" by (simp add: normalize_weights_def)
  from assms have "r < 0 + sum_list (sort ?nw)"
    by (simp add: sum_list_sort sum_list_normalize_weights)
  with first_exceeding_total [of 0 r "sort ?nw" 0] assms obtain i where
    i: "first_exceeding (sort ?nw) 0 r 0 = Some i" "i < length weights"
       "scan_weights (sort ?nw) 0 r = Some (sort ?nw ! i)"
    by (auto simp: len)
  from i(2) have "sort ?nw ! i \<in> set ?nw"
    using nth_mem [of i "sort ?nw"] by (simp add: len)
  from weights_index_map_dom [OF this] obtain j where j: "weights_index_map ?nw (sort ?nw ! i) = Some j" ..
  from weights_index_map_Some [OF j] have jp: "j < length weights" "?nw ! j = sort ?nw ! i"
    by (simp_all add: len)
  from assms i(3) j have sel: "SelectWeightedIndex weights r = Inr j"
    by (simp add: SelectWeightedIndex_def Let_def map_index_def)
  have "\<forall>j'<length weights. ?nw ! j' = sort ?nw ! i \<longrightarrow> j' = j" if "distinct ?nw"
  proof (intro allI impI)
    fix j' assume "j' < length weights" "?nw ! j' = sort ?nw ! i"
    with jp that nth_eq_iff_index_eq [of ?nw j' j] show "j' = j" by (simp add: len)
  qed
  with i jp sel show ?thesis by blast
qed

theorem SelectWeightedIndex_sorted_slot_witness:
  "0 < sum_list [3, 1 :: real] \<and> distinct (normalize_weights [3, 1])
   \<and> (\<exists>i j. first_exceeding (sort (normalize_weights [3, 1])) 0 (1 / 10) 0 = Some i
           \<and> SelectWeightedIndex [3, 1] (1 / 10) = Inr j
           \<and> normalize_weights [3, 1] ! j = sort (normalize_weights [3, 1]) ! i
           \<and> (\<forall>j'<length [3, 1 :: real].
                 normalize_weights [3, 1] ! j' = sort (normalize_weights [3, 1]) ! i \<longrightarrow> j' = j))"
proof -
  have d: "distinct (normalize_weights [3, 1])" by (simp add: normalize_weights_def)
  have "0 < sum_list [3, 1 :: real]" "(0::real) \<le> 1 / 10" "(1::real) / 10 < 1" by simp_all
  from SelectWeightedIndex_sorted_slot [OF this] d show ?thesis by auto
qed

text \<open>
  Claim C6: for the weight vector \<open>[0,0,1,0]\<close> and every drawn value \<open>r\<close> in \<open>[0,1)\<close>,
  \<open>SelectWeightedIndex\<close> returns index \<open>2\<close>.
\<close>

theorem SelectWeightedIndex_scenario_C:
  "0 \<le> r \<Longrightarrow> r < 1 \<Longrightarrow> SelectWeightedIndex [0, 0, 1, 0] r = Inr 2"
  by (simp add: sampler_defs)

theorem SelectWeightedIndex_scenario_C_witness:
  "(0::real) \<le> 1 / 3 \<and> (1::real) / 3 < 1 \<and> SelectWeightedIndex [0, 0, 1, 0] (1 / 3) = Inr 2"
  using SelectWeightedIndex_scenario_C [of "1 / 3"] by simp

text \<open>
  Claim C10: when two entries of the weight vector are equal after normalization, only the
  largest original index holding that value can be returned: an index \<open>i\<close> that has a
  later index \<open>j\<close> with the same normalized weight is returned for no drawn value. For the
  weights \<open>[1, 1]\<close> the sampler returns index \<open>1\<close> for every drawn value in \<open>[0,1)\<close>.
\<close>

theorem SelectWeightedIndex_duplicate_last:
  "(i < j \<and> j < length weights \<and> normalize_weights weights ! i = normalize_weights weights ! j
      \<longrightarrow> SelectWeightedIndex weights r \<noteq> Inr i)
   \<and> (0 \<le> r' \<and> r' < 1 \<longrightarrow> SelectWeightedIndex [1, 1] r' = Inr 1)"
proof (intro conjI impI)
  assume a: "i < j \<and> j < length weights \<and> normalize_weights weights ! i = normalize_weights weights ! j"
  show "SelectWeightedIndex weights r \<noteq> Inr i"
  proof
    assume "SelectWeightedIndex weights r = Inr i"
    from SelectWeightedIndex_Inr [OF this] a have "j \<le> i" by simp
    with a show False by simp
  qed
next
  assume "0 \<le> r' \<and> r' < 1"
  then show "SelectWeightedIndex [1, 1] r' = Inr 1"
    by (simp add: sampler_defs)
qed

theorem SelectWeightedIndex_duplicate_last_witness:
  "(0::nat) < 1 \<and> 1 < length [1, 1, 2 :: real]
   \<and> normalize_weights [1, 1, 2] ! 0 = normalize_weights [1, 1, 2] ! 1
   \<and> SelectWeightedIndex [1, 1, 2] (1 / 10) \<noteq> Inr 0
   \<and> (0::real) \<le> 1 / 2 \<and> (1::real) / 2 < 1
   \<and> SelectWeightedIndex [1, 1] (1 / 2) = Inr 1"
  using SelectWeightedIndex_duplicate_last [of 0 1 "[1, 1, 2]" "1 / 10" "1 / 2"]
  by (simp add: normalize_weights_def)

section \<open>Properties of the assignment and update steps\<close>

text \<open>A loop that stores \<open>f p\<close> at every index \<open>p\<close> below \<open>n\<close>.\<close>

lemma fold_update_length:
  "length (fold (\<lambda>p ls. ls[p := f p]) ps ls) = length ls"
  by (induction ps arbitrary: ls) auto

lemma fold_update_nth:
  "n \<le> length ls \<Longrightarrow>
     fold (\<lambda>p ls. ls[p := f p]) [0..<n] ls ! p = (if p < n then f p else ls ! p)"
proof (induction n)
  case 0
  then show ?case by simp
next
  case (Suc n)
  then have "n < length (fold (\<lambda>p ls. ls[p := f p]) [0..<n] ls)"
    by (simp add: fold_update_length)
  with Suc show ?case
    by (auto simp: nth_list_update less_Suc_eq)
qed

lemma center_dist_Labels [simp]: "center_dist (km\<lparr>Labels := l\<rparr>) = center_dist km"
  by (intro ext) (simp add: center_dist_def)

lemma FindClosestCluster_Labels [simp]:
  "FindClosestCluster (km\<lparr>Labels := l\<rparr>) q n = FindClosestCluster km q n"
  by (simp add: FindClosestCluster_def)

lemma fold_assign_point:
  "fold (assign_point X) ps km =
     km\<lparr>Labels := fold (\<lambda>p ls. ls[p := real (FindClosestCluster km (col X p) (K km))]) ps (Labels km)\<rparr>"
proof (induction ps arbitrary: km)
  case Nil
  show ?case by simp
next
  case (Cons p ps)
  show ?case
    by (simp add: Cons.IH [of "assign_point X p km"]) (simp add: assign_point_def)
qed

text \<open>The assignment step writes the nearest cluster of every sample and nothing else.\<close>

lemma AssignLabels_eq:
  assumes "length (Labels km) = cols X"
  shows "AssignLabels km X =
           km\<lparr>Labels := map (\<lambda>p. real (FindClosestCluster km (col X p) (K km))) [0..<cols X]\<rparr>"
proof -
  let ?f = "\<lambda>p. real (FindClosestCluster km (col X p) (K km))"
  let ?ls = "fold (\<lambda>p ls. ls[p := ?f p]) [0..<cols X] (Labels km)"
  have "?ls = map ?f [0..<cols X]"
    by (rule nth_equalityI) (simp_all add: fold_update_length fold_update_nth assms)
  then show ?thesis
    by (simp add: AssignLabels_def fold_assign_point)
qed

lemma AssignLabels_K [simp]: "K (AssignLabels km X) = K km"
  by (simp add: AssignLabels_def fold_assign_point)

lemma AssignLabels_length [simp]: "length (Labels (AssignLabels km X)) = length (Labels km)"
  by (simp add: AssignLabels_def fold_assign_point fold_update_length)

lemma GetIndicesWithLabel_centers [simp]:
  "GetIndicesWithLabel (km\<lparr>centers := M\<rparr>) l = GetIndicesWithLabel km l"
  by (simp add: GetIndicesWithLabel_def)

lemma GetIndicesWithLabel_empty_iff:
  "GetIndicesWithLabel km l = [] \<longleftrightarrow> (\<forall>p<length (Labels km). Labels km ! p \<noteq> l)"
  by (auto simp: GetIndicesWithLabel_def filter_empty_conv)

lemma new_center_centers [simp]: "new_center (km\<lparr>centers := M\<rparr>) X old c = new_center km X old c"
  by (simp add: new_center_def)

lemma update_center_eq:
  "update_center X old c km = km\<lparr>centers := set_col (centers km) c (new_center km X old c)\<rparr>"
  by (simp add: update_center_def Let_def)

lemma fold_update_center:
  "fold (update_center X old) cs km =
     km\<lparr>centers := (centers km)\<lparr>columns :=
        fold (\<lambda>c xs. xs[c := new_center km X old c]) cs (columns (centers km))\<rparr>\<rparr>"
proof (induction cs arbitrary: km)
  case Nil
  show ?case by simp
next
  case (Cons c cs)
  show ?case
    by (simp add: Cons.IH [of "update_center X old c km"]) (simp add: update_center_eq set_col_def)
qed

text \<open>The update step replaces every column by the centre computed from the old matrix.\<close>

lemma EstimateNewCenters_eq:
  assumes "cols (centers km) = K km"
  shows "EstimateNewCenters km X =
           km\<lparr>centers := (centers km)\<lparr>columns := map (new_center km X (centers km)) [0..<K km]\<rparr>\<rparr>"
proof -
  let ?f = "new_center km X (centers km)"
  let ?cs = "fold (\<lambda>c xs. xs[c := ?f c]) [0..<K km] (columns (centers km))"
  from assms have len: "length (columns (centers km)) = K km" by (simp add: cols_def)
  have "?cs = map ?f [0..<K km]"
    by (rule nth_equalityI) (simp_all add: fold_update_length fold_update_nth len)
  then show ?thesis
    by (simp add: EstimateNewCenters_def fold_update_center)
qed

lemma EstimateNewCenters_Labels [simp]: "Labels (EstimateNewCenters km X) = Labels km"
  by (simp add: EstimateNewCenters_def fold_update_center)

lemma EstimateNewCenters_K [simp]: "K (EstimateNewCenters km X) = K km"
  by (simp add: EstimateNewCenters_def fold_update_center)

text \<open>
  The scan of \<open>FindClosestCluster\<close> over at least one centroid ends at the first index of
  minimal distance.
\<close>

lemma closest_fold:
  "0 < n \<Longrightarrow>
     \<exists>c. fold (closer d) [0..<n] (0, None) = (c, Some (d c)) \<and> c < n
        \<and> (\<forall>j<n. d c \<le> d j) \<and> (\<forall>j<c. d c < d j)"
proof (induction n)
  case 0
  then show ?case by simp
next
  case (Suc n)
  show ?case
  proof (cases "n = 0")
    case True
    then show ?thesis by (simp add: closer_def below_def)
  next
    case False
    with Suc.IH obtain c where c: "fold (closer d) [0..<n] (0, None) = (c, Some (d c))" "c < n"
      "\<forall>j<n. d c \<le> d j" "\<forall>j<c. d c < d j" by auto
    show ?thesis
    proof (cases "d n < d c")
      case True
      with c have "fold (closer d) [0..<Suc n] (0, None) = (n, Some (d n))"
        by (simp add: closer_def below_def)
      moreover from True c(3) have "\<forall>j<n. d n < d j" by fastforce
      ultimately show ?thesis by (auto simp: less_Suc_eq intro: less_imp_le)
    next
      case False
      with c have "fold (closer d) [0..<Suc n] (0, None) = (c, Some (d c))"
        by (simp add: closer_def below_def)
      with c False show ?thesis by (auto simp: less_Suc_eq)
    qed
  qed
qed

lemma FindClosestCluster_nearest:
  assumes "0 < n"
  shows "FindClosestCluster km q n < n
         \<and> (\<forall>j<n. center_dist km q (FindClosestCluster km q n) \<le> center_dist km q j)
         \<and> (\<forall>j<FindClosestCluster km q n.
               center_dist km q (FindClosestCluster km q n) < center_dist km q j)"
  using closest_fold [OF assms, of "center_dist km q"] by (auto simp: FindClosestCluster_def)

lemma AssignLabels_range:
  assumes "length (Labels km) = cols X" and "0 < K km"
  shows "\<forall>l\<in>set (Labels (AssignLabels km X)). \<exists>c<K km. l = real c"
  using assms FindClosestCluster_nearest [OF assms(2), of km]
  by (auto simp: AssignLabels_eq)

section \<open>Evaluation on the example inputs\<close>

lemma upt_0_2: "[0..<2] = [0, Suc 0]"
  by (simp add: upt_rec)

lemma upt_1_2: "[Suc 0..<2] = [Suc 0]"
  by (simp add: upt_rec)

lemma replicate_2: "replicate 2 x = [x, x]"
  by (simp add: numeral_2_eq_2)

lemma norm_v_single: "norm_v [x] = \<bar>x\<bar>"
  by (simp add: norm_v_def squaredNorm_def)

lemmas eval_defs = upt_0_2 upt_1_2 FindClosestCluster_def closer_def below_def center_dist_def
  col_def cols_def vsub_def norm_v_single new_center_def GetIndicesWithLabel_def rowwise_mean_def
  CheckChanged_def

lemma two_points_cols: "cols two_points = 2"
  by (simp add: two_points_def cols_def)

lemma two_points_col: "col two_points 0 = [0]" "col two_points (Suc 0) = [10]"
  by (simp_all add: two_points_def col_def)

lemma engine_1d_centers:
  "cols (centers (engine_1d ls m k [c0, c1])) = 2"
  "(engine_1d ls m k [c0, c1])\<lparr>centers := set_col (centers (engine_1d ls m k [c0, c1])) 0 p\<rparr>
     = engine_1d ls m k [p, c1]"
  by (simp_all add: engine_1d_def cols_def set_col_def)

lemma engine_1d_sel:
  "K (engine_1d ls m k cs) = k" "Labels (engine_1d ls m k cs) = ls"
  "InitMethod (engine_1d ls m k cs) = m" "Random (engine_1d ls m k cs) = False"
  "centers (engine_1d ls m k cs) = \<lparr>rows = 1, columns = cs\<rparr>"
  "(engine_1d ls m k cs)\<lparr>Labels := ls'\<rparr> = engine_1d ls' m k cs"
  "(engine_1d ls m k cs)\<lparr>K := k'\<rparr> = engine_1d ls m k' cs"
  by (simp_all add: engine_1d_def)

lemma AssignLabels_two_points_a:
  "AssignLabels (engine_1d [a, b] m 2 [[10], [0]]) two_points = engine_1d [1, 0] m 2 [[10], [0]]"
  by (subst AssignLabels_eq) (simp_all add: engine_1d_def two_points_def eval_defs)

lemma EstimateNewCenters_two_points_a:
  "EstimateNewCenters (engine_1d [1, 0] m 2 [[10], [0]]) two_points
     = engine_1d [1, 0] m 2 [[10], [0]]"
  by (subst EstimateNewCenters_eq) (simp_all add: engine_1d_def two_points_def eval_defs)

lemma AssignLabels_two_points_b:
  "AssignLabels (engine_1d [a, b] m 2 [[0], [10]]) two_points = engine_1d [0, 1] m 2 [[0], [10]]"
  by (subst AssignLabels_eq) (simp_all add: engine_1d_def two_points_def eval_defs)

lemma EstimateNewCenters_two_points_b:
  "EstimateNewCenters (engine_1d [0, 1] m 2 [[0], [10]]) two_points
     = engine_1d [0, 1] m 2 [[0], [10]]"
  by (subst EstimateNewCenters_eq) (simp_all add: engine_1d_def two_points_def eval_defs)

section \<open>The update step (claim C3)\<close>

text \<open>
  Claim C3: for every cluster \<open>c\<close> in \<open>[0,K)\<close> whose set of samples with label \<open>c\<close> is
  empty at an update step, \<open>EstimateNewCenters\<close> leaves column \<open>c\<close> of the centroid matrix
  equal to its value before that update, while the column of every nonempty cluster is
  overwritten with the per-feature arithmetic mean of its assigned samples. The assigned
  samples of \<open>c\<close> are read from the label vector itself: the indices \<open>p\<close> with
  \<open>Labels ! p = c\<close>, each counted once. The centroid matrix has \<open>K\<close> columns, as \<open>Fit\<close>
  makes it.
\<close>

theorem EstimateNewCenters_columns:
  assumes "c < K km" and "cols (centers km) = K km"
  shows "((\<forall>p<length (Labels km). Labels km ! p \<noteq> real c) \<longrightarrow>
            col (centers (EstimateNewCenters km X)) c = col (centers km) c)
       \<and> ((\<exists>p<length (Labels km). Labels km ! p = real c) \<longrightarrow>
            length (col (centers (EstimateNewCenters km X)) c) = rows X
          \<and> (\<forall>f<rows X. col (centers (EstimateNewCenters km X)) c ! f =
                sum_list (map (\<lambda>p. col X p ! f)
                            (filter (\<lambda>p. Labels km ! p = real c) [0..<length (Labels km)]))
                  / real (length (filter (\<lambda>p. Labels km ! p = real c) [0..<length (Labels km)]))))"
proof -
  let ?members = "filter (\<lambda>p. Labels km ! p = real c) [0..<length (Labels km)]"
  have members: "GetIndicesWithLabel km (real c) = ?members"
    by (simp add: GetIndicesWithLabel_def)
  from assms have new: "col (centers (EstimateNewCenters km X)) c = new_center km X (centers km) c"
    by (simp add: EstimateNewCenters_eq col_def)
  show ?thesis
  proof (rule conjI; rule impI)
    assume "\<forall>p<length (Labels km). Labels km ! p \<noteq> real c"
    then have "GetIndicesWithLabel km (real c) = []"
      by (simp add: GetIndicesWithLabel_empty_iff)
    with new show "col (centers (EstimateNewCenters km X)) c = col (centers km) c"
      by (simp add: new_center_def cols_def)
  next
    assume "\<exists>p<length (Labels km). Labels km ! p = real c"
    then have ne: "GetIndicesWithLabel km (real c) \<noteq> []"
      by (simp add: GetIndicesWithLabel_empty_iff)
    with new have "col (centers (EstimateNewCenters km X)) c =
        rowwise_mean \<lparr>rows = rows X, columns = map (col X) (GetIndicesWithLabel km (real c))\<rparr>"
      by (simp add: new_center_def cols_def)
    then have mean: "col (centers (EstimateNewCenters km X)) c =
        rowwise_mean \<lparr>rows = rows X, columns = map (col X) ?members\<rparr>"
      by (simp only: members)
    show "length (col (centers (EstimateNewCenters km X)) c) = rows X
          \<and> (\<forall>f<rows X. col (centers (EstimateNewCenters km X)) c ! f =
                sum_list (map (\<lambda>p. col X p ! f) ?members) / real (length ?members))"
      by (simp add: mean rowwise_mean_def cols_def comp_def)
  qed
qed

theorem EstimateNewCenters_columns_witness:
  "col (centers (EstimateNewCenters (engine_1d [0, 0] KMEANSPP 2 [[3], [20]]) two_points)) 1 = [20]
   \<and> col (centers (EstimateNewCenters (engine_1d [0, 0] KMEANSPP 2 [[3], [20]]) two_points)) 0 ! 0 = 5"
proof -
  let ?km = "engine_1d [0, 0] KMEANSPP 2 [[3], [20]]"
  have k: "0 < K ?km" "1 < K ?km" "cols (centers ?km) = K ?km"
    by (simp_all add: engine_1d_def cols_def)
  have none: "\<forall>p<length (Labels ?km). Labels ?km ! p \<noteq> real 1"
    by (auto simp: engine_1d_def less_Suc_eq)
  have some: "\<exists>p<length (Labels ?km). Labels ?km ! p = real 0"
    by (rule exI [of _ 0]) (simp add: engine_1d_def)
  have members: "filter (\<lambda>p. Labels ?km ! p = real 0) [0..<length (Labels ?km)] = [0, Suc 0]"
    by (simp add: engine_1d_def upt_0_2)
  from EstimateNewCenters_columns [OF k(2) k(3), of two_points] none
  have "col (centers (EstimateNewCenters ?km two_points)) 1 = col (centers ?km) 1"
    by blast
  moreover have "col (centers ?km) 1 = [20]"
    by (simp add: engine_1d_def col_def)
  moreover from EstimateNewCenters_columns [OF k(1) k(3), of two_points] some
  have "\<forall>f<rows two_points. col (centers (EstimateNewCenters ?km two_points)) 0 ! f =
          sum_list (map (\<lambda>p. col two_points p ! f)
                      (filter (\<lambda>p. Labels ?km ! p = real 0) [0..<length (Labels ?km)]))
            / real (length (filter (\<lambda>p. Labels ?km ! p = real 0) [0..<length (Labels ?km)]))"
    by blast
  then have "\<forall>f<rows two_points. col (centers (EstimateNewCenters ?km two_points)) 0 ! f =
          sum_list (map (\<lambda>p. col two_points p ! f) [0, Suc 0]) / real (length [0, Suc 0 :: nat])"
    by (simp only: members)
  then have "col (centers (EstimateNewCenters ?km two_points)) 0 ! 0 = 5"
    by (simp add: two_points_def col_def)
  ultimately show ?thesis by simp
qed

section \<open>The assignment step (claim C7)\<close>

text \<open>
  Claim C7: for every sample \<open>p\<close>, the assignment step labels it with the index \<open>c\<close> of
  the centroid at minimum Euclidean (non-squared) distance among all \<open>K\<close> current
  centroids, and when several centroids attain the minimum the lowest index is chosen.
  There is at least one centroid, and the label vector has one entry per sample, as
  \<open>Cluster\<close> resizes it.
\<close>

theorem AssignLabels_nearest:
  assumes "0 < K km" and "p < cols X" and "length (Labels km) = cols X"
  shows "\<exists>c<K km. Labels (AssignLabels km X) ! p = real c
           \<and> (\<forall>j<K km. norm_v (vsub (col (centers km) c) (col X p))
                          \<le> norm_v (vsub (col (centers km) j) (col X p)))
           \<and> (\<forall>j<c. norm_v (vsub (col (centers km) c) (col X p))
                        < norm_v (vsub (col (centers km) j) (col X p)))"
proof -
  from assms have "Labels (AssignLabels km X) ! p = real (FindClosestCluster km (col X p) (K km))"
    by (simp add: AssignLabels_eq)
  with FindClosestCluster_nearest [OF assms(1), of km "col X p"] show ?thesis
    unfolding center_dist_def by blast
qed

theorem AssignLabels_nearest_witness:
  "Labels (AssignLabels (engine_1d [0, 0] KMEANSPP 2 [[10], [0]]) two_points) ! 0 = 1
   \<and> norm_v (vsub (col (centers (engine_1d [0, 0] KMEANSPP 2 [[10], [0]])) 1) (col two_points 0))
       < norm_v (vsub (col (centers (engine_1d [0, 0] KMEANSPP 2 [[10], [0]])) 0) (col two_points 0))"
  using AssignLabels_nearest [of "engine_1d [0, 0] KMEANSPP 2 [[10], [0]]" 0 two_points]
  by (simp add: AssignLabels_two_points_a engine_1d_sel two_points_cols two_points_col col_def
        vsub_def norm_v_single)

section \<open>The main loop and the initialisers\<close>

text \<open>One round of the loop, when the labels changed and when they did not.\<close>

lemma Cluster_loop_changed:
  assumes "AssignLabels km X = km1" and "EstimateNewCenters km1 X = km2"
    and "CheckChanged (Labels km2) old"
  shows "Cluster_loop km X old iter = Cluster_loop km2 X (Labels km2) (iter + 1)"
  apply (subst Cluster_loop.simps)
  apply (unfold Let_def assms(1) assms(2))
  apply (simp only: assms(3) if_True)
  done

lemma Cluster_loop_done:
  assumes "AssignLabels km X = km1" and "EstimateNewCenters km1 X = km2"
    and "\<not> CheckChanged (Labels km2) old"
  shows "Cluster_loop km X old iter = Some (km2, iter + 1)"
  apply (subst Cluster_loop.simps)
  apply (unfold Let_def assms(1) assms(2))
  apply (simp only: assms(3) if_False)
  done

text \<open>
  Whenever the loop ends, it ends with \<open>K\<close> unchanged, one label per sample and every
  label the number of a cluster, provided there is a cluster at all.
\<close>

lemma Cluster_loop_invariant:
  assumes "Cluster_loop km X old iter = Some y"
  shows "length (Labels km) = cols X \<longrightarrow> 0 < K km \<longrightarrow>
           K (fst y) = K km \<and> length (Labels (fst y)) = cols X
           \<and> (\<forall>l\<in>set (Labels (fst y)). \<exists>c<K km. l = real c)"
proof (rule Cluster_loop.raw_induct [where P = "\<lambda>km X old iter y.
           length (Labels km) = cols X \<longrightarrow> 0 < K km \<longrightarrow>
           K (fst y) = K km \<and> length (Labels (fst y)) = cols X
           \<and> (\<forall>l\<in>set (Labels (fst y)). \<exists>c<K km. l = real c)", OF _ assms])
  fix loop :: "KMeans \<Rightarrow> real matrix \<Rightarrow> vec \<Rightarrow> nat \<Rightarrow> (KMeans \<times> nat) option"
  fix km X old iter y
  let ?km1 = "AssignLabels km X"
  let ?km2 = "EstimateNewCenters ?km1 X"
  assume IH: "\<And>km X old iter y. loop km X old iter = Some y \<Longrightarrow>
           length (Labels km) = cols X \<longrightarrow> 0 < K km \<longrightarrow>
           K (fst y) = K km \<and> length (Labels (fst y)) = cols X
           \<and> (\<forall>l\<in>set (Labels (fst y)). \<exists>c<K km. l = real c)"
  assume body: "(let km1 = AssignLabels km X;
          km2 = EstimateNewCenters km1 X;
          changed = CheckChanged (Labels km2) old
      in if changed then loop km2 X (Labels km2) (iter + 1)
         else Some (km2, iter + 1)) = Some y"
  show "length (Labels km) = cols X \<longrightarrow> 0 < K km \<longrightarrow>
           K (fst y) = K km \<and> length (Labels (fst y)) = cols X
           \<and> (\<forall>l\<in>set (Labels (fst y)). \<exists>c<K km. l = real c)"
  proof (intro impI)
    assume len: "length (Labels km) = cols X" and pos: "0 < K km"
    show "K (fst y) = K km \<and> length (Labels (fst y)) = cols X
           \<and> (\<forall>l\<in>set (Labels (fst y)). \<exists>c<K km. l = real c)"
    proof (cases "CheckChanged (Labels ?km2) old")
      case True
      with body have "loop ?km2 X (Labels ?km2) (iter + 1) = Some y" by (simp add: Let_def)
      from IH [OF this] len pos show ?thesis by simp
    next
      case False
      with body have "y = (?km2, iter + 1)" by (simp add: Let_def)
      with len pos AssignLabels_range [OF len pos] show ?thesis by simp
    qed
  qed
qed

text \<open>No initialiser changes \<open>K\<close>.\<close>

lemma fold_random_center_K: "K (fst (fold (random_center X) cs (km, e))) = K km"
  by (induction cs arbitrary: km e) (auto simp: random_center_def split: prod.splits)

lemma RandomInit_K: "RandomInit km e X = (km', e') \<Longrightarrow> K km' = K km"
  using fold_random_center_K [of X "[0..<K km]" km e] by (simp add: RandomInit_def)

lemma pp_centers_K: "pp_centers cs X w km e = Inr (km', e') \<Longrightarrow> K km' = K km"
proof (induction cs X w km e rule: pp_centers.induct)
  case (1 X w km e)
  then show ?case by simp
next
  case (2 cluster rest X w km e)
  then show ?case
    by (auto simp: Let_def split: prod.splits sum.splits)
qed

lemma KMeansPPInit_K: "KMeansPPInit km e X = Inr (km', e') \<Longrightarrow> K km' = K km"
  by (auto simp: KMeansPPInit_def Let_def split: prod.splits if_splits dest!: pp_centers_K)

lemma initialise_K: "initialise km e X = Inr (km', e') \<Longrightarrow> K km' = K km"
  by (auto simp: initialise_def split: if_splits dest: RandomInit_K KMeansPPInit_K)

lemma Cluster_labels:
  assumes "Cluster km e X = Some (Inr (km', e', iter))" and "0 < K km"
  shows "K km' = K km \<and> length (Labels km') = cols X \<and> (\<forall>l\<in>set (Labels km'). \<exists>c<K km. l = real c)"
proof -
  let ?e1 = "e\<lparr>drand48_X := srand48 (if Random km then clock e else 0)\<rparr>"
  from assms(1) obtain km1 e2 where init: "initialise km ?e1 X = Inr (km1, e2)"
    and loop: "Cluster_loop (km1\<lparr>Labels := resize_vec (uninit e2) (cols X) (Labels km1)\<rparr>) X
                 (replicate (cols X) 0) 0 = Some (km', iter)"
    by (auto simp: Cluster_def Let_def split: if_splits sum.splits option.splits prod.splits)
  from initialise_K [OF init] have k: "K km1 = K km" .
  have "length (resize_vec (uninit e2) (cols X) (Labels km1)) = cols X"
    by (simp add: resize_vec_def)
  with Cluster_loop_invariant [OF loop] k assms(2) show ?thesis by simp
qed

text \<open>The generator \<open>drand48\<close> returns a value in \<open>[0,1)\<close> and touches only its own state.\<close>

lemma drand48_range: "0 \<le> fst (drand48 e) \<and> fst (drand48 e) < 1"
proof -
  have "drand48_step x < 2 ^ 48" for x by (simp add: drand48_step_def)
  then have "real (drand48_step x) < 2 ^ 48" for x
    by (metis of_nat_less_iff of_nat_numeral of_nat_power)
  then show ?thesis by (simp add: drand48_def Let_def)
qed

lemma drand48_env [simp]:
  "rand_future (snd (drand48 e)) = rand_future e" "uninit (snd (drand48 e)) = uninit e"
  "clock (snd (drand48 e)) = clock e"
  by (simp_all add: drand48_def Let_def)

lemma resize_vec_2:
  "length ls \<noteq> 2 \<Longrightarrow> resize_vec u 2 ls = [u 0, u (Suc 0)]"
  "resize_vec u 2 [a, b] = [a, b]"
  by (simp_all add: resize_vec_def upt_0_2)

subsection \<open>The two runs of k-means++ on the samples 0 and 10\<close>

lemma select_first: "0 \<le> r \<Longrightarrow> r < 1 \<Longrightarrow> 0 < a \<Longrightarrow> SelectWeightedIndex [a, 0] r = Inr 0"
  by (simp add: sampler_defs)

lemma select_second: "0 \<le> r \<Longrightarrow> r < 1 \<Longrightarrow> 0 < a \<Longrightarrow> SelectWeightedIndex [0, a] r = Inr 1"
  by (simp add: sampler_defs)

lemma pp_centers_from_10:
  "pp_centers [Suc 0] two_points [w0, w1] (engine_1d ls m 2 [[10], c1]) e
     = Inr (engine_1d ls m 2 [[10], [0]], snd (drand48 e))"
proof -
  have w: "fold (pp_weight (engine_1d ls m 2 [[10], c1]) two_points (Suc 0)) [0..<cols two_points]
             [w0, w1] = [100, 0]"
    by (simp add: two_points_def engine_1d_def pp_weight_def squaredNorm_def eval_defs)
  obtain r e' where d: "drand48 e = (r, e')" by (cases "drand48 e")
  with drand48_range [of e] have "0 \<le> r" "r < 1" by simp_all
  then have "SelectWeightedIndex [100, 0] r = Inr 0" by (simp add: select_first)
  then show ?thesis
    by (simp add: w d Let_def) (simp add: two_points_def engine_1d_def set_col_def col_def)
qed

lemma pp_centers_from_0:
  "pp_centers [Suc 0] two_points [w0, w1] (engine_1d ls m 2 [[0], c1]) e
     = Inr (engine_1d ls m 2 [[0], [10]], snd (drand48 e))"
proof -
  have w: "fold (pp_weight (engine_1d ls m 2 [[0], c1]) two_points (Suc 0)) [0..<cols two_points]
             [w0, w1] = [0, 100]"
    by (simp add: two_points_def engine_1d_def pp_weight_def squaredNorm_def eval_defs)
  obtain r e' where d: "drand48 e = (r, e')" by (cases "drand48 e")
  with drand48_range [of e] have "0 \<le> r" "r < 1" by simp_all
  then have "SelectWeightedIndex [0, 100] r = Inr 1" by (simp add: select_second)
  then show ?thesis
    by (simp add: w d Let_def) (simp add: two_points_def engine_1d_def set_col_def col_def)
qed

lemma KMeansPPInit_first_centre:
  assumes "rand_future e = v ## s" and "v mod 2 = i" and "col two_points i = p"
  shows "KMeansPPInit (engine_1d ls m 2 [c0, c1]) e two_points
     = pp_centers [Suc 0] two_points [uninit e 0, uninit e (Suc 0)] (engine_1d ls m 2 [p, c1])
         (e\<lparr>rand_future := s\<rparr>)"
  by (simp add: KMeansPPInit_def rand_def Let_def two_points_cols engine_1d_centers engine_1d_sel(1)
        assms upt_0_2 upt_1_2 del: pp_centers.simps)

lemma KMeansPPInit_odd:
  assumes "rand_future e = 1804289383 ## s"
  shows "KMeansPPInit (engine_1d ls m 2 [c0, c1]) e two_points
     = Inr (engine_1d ls m 2 [[10], [0]], snd (drand48 (e\<lparr>rand_future := s\<rparr>)))"
  by (subst KMeansPPInit_first_centre [OF assms, where i = "Suc 0" and p = "[10]"])
     (simp_all only: two_points_col pp_centers_from_10, simp)

lemma KMeansPPInit_even:
  assumes "rand_future e = 846930886 ## s"
  shows "KMeansPPInit (engine_1d ls m 2 [c0, c1]) e two_points
     = Inr (engine_1d ls m 2 [[0], [10]], snd (drand48 (e\<lparr>rand_future := s\<rparr>)))"
  by (subst KMeansPPInit_first_centre [OF assms, where i = 0 and p = "[0]"])
     (simp_all only: two_points_col pp_centers_from_0, simp)

lemma Cluster_loop_two_points_a:
  "Cluster_loop (engine_1d [a, b] m 2 [[10], [0]]) two_points [0, 0] 0
     = Some (engine_1d [1, 0] m 2 [[10], [0]], 2)"
proof -
  have c1: "CheckChanged (Labels (engine_1d [1, 0] m 2 [[10], [0]])) [0, 0]"
    by (simp add: engine_1d_def CheckChanged_def upt_0_2)
  have c2: "\<not> CheckChanged (Labels (engine_1d [1, 0] m 2 [[10], [0]]))
                (Labels (engine_1d [1, 0] m 2 [[10], [0]]))"
    by (simp add: CheckChanged_def list_ex_iff)
  show ?thesis
    by (simp add: Cluster_loop_changed [OF AssignLabels_two_points_a EstimateNewCenters_two_points_a c1]
          Cluster_loop_done [OF AssignLabels_two_points_a EstimateNewCenters_two_points_a c2])
qed

lemma Cluster_loop_two_points_b:
  "Cluster_loop (engine_1d [a, b] m 2 [[0], [10]]) two_points [0, 0] 0
     = Some (engine_1d [0, 1] m 2 [[0], [10]], 2)"
proof -
  have c1: "CheckChanged (Labels (engine_1d [0, 1] m 2 [[0], [10]])) [0, 0]"
    by (simp add: engine_1d_def CheckChanged_def upt_0_2)
  have c2: "\<not> CheckChanged (Labels (engine_1d [0, 1] m 2 [[0], [10]]))
                (Labels (engine_1d [0, 1] m 2 [[0], [10]]))"
    by (simp add: CheckChanged_def list_ex_iff)
  show ?thesis
    by (simp add: Cluster_loop_changed [OF AssignLabels_two_points_b EstimateNewCenters_two_points_b c1]
          Cluster_loop_done [OF AssignLabels_two_points_b EstimateNewCenters_two_points_b c2])
qed

lemma Cluster_KMEANSPP_two_points:
  assumes "KMeansPPInit (engine_1d ls KMEANSPP 2 cs) (e\<lparr>drand48_X := srand48 0\<rparr>) two_points
             = Inr (engine_1d ls KMEANSPP 2 cs', e')"
    and "resize_vec (uninit e') 2 ls = [a, b]"
    and "Cluster_loop (engine_1d [a, b] KMEANSPP 2 cs') two_points [0, 0] 0 = Some (km', n)"
  shows "Cluster (engine_1d ls KMEANSPP 2 cs) e two_points = Some (Inr (km', e', n))"
proof -
  have i: "initialise (engine_1d ls KMEANSPP 2 cs) e1 two_points
             = KMeansPPInit (engine_1d ls KMEANSPP 2 cs) e1 two_points" for e1
    by (simp add: initialise_def engine_1d_sel(3) RANDOM_def KMEANSPP_def)
  show ?thesis
    unfolding Cluster_def
    by (simp add: i engine_1d_sel two_points_cols assms Let_def replicate_2)
qed

lemma Fit_fresh_two_points:
  "Fit fresh_engine process_start two_points 2
     = Cluster (engine_1d [] KMEANSPP 2 [[0], [0]]) process_start two_points"
  by (simp add: Fit_def fresh_engine_def process_start_def two_points_def engine_1d_def
        unsigned_int_def resize_matrix_def cols_def Let_def upt_0_2)

lemma Fit_again_two_points:
  "Fit (engine_1d ls m 2 [c0, c1]) e two_points 2 = Cluster (engine_1d ls m 2 [c0, c1]) e two_points"
  by (simp add: Fit_def two_points_def engine_1d_def unsigned_int_def resize_matrix_def cols_def
        Let_def)

lemma first_Fit:
  "Fit fresh_engine process_start two_points 2
     = Some (Inr (engine_1d [1, 0] KMEANSPP 2 [[10], [0]], after_first_fit, 2))"
proof -
  have e: "snd (drand48 (process_start\<lparr>drand48_X := srand48 0,
             rand_future := 846930886 ## sconst 0\<rparr>)) = after_first_fit"
    by (simp add: drand48_def process_start_def after_first_fit_def Let_def)
  have r: "rand_future (process_start\<lparr>drand48_X := srand48 0\<rparr>)
             = 1804289383 ## 846930886 ## sconst 0"
    by (simp add: process_start_def)
  have u: "resize_vec (uninit after_first_fit) 2 [] = [0, 0]"
    by (simp add: resize_vec_2 after_first_fit_def)
  show ?thesis
    unfolding Fit_fresh_two_points
    by (rule Cluster_KMEANSPP_two_points [OF _ u Cluster_loop_two_points_a])
       (simp add: KMeansPPInit_odd [OF r] e)
qed

lemma second_Fit:
  "Fit (engine_1d [1, 0] KMEANSPP 2 [[10], [0]]) after_first_fit two_points 2
     = Some (Inr (engine_1d [0, 1] KMEANSPP 2 [[0], [10]], after_second_fit, 2))"
proof -
  have e: "snd (drand48 (after_first_fit\<lparr>drand48_X := srand48 0, rand_future := sconst 0\<rparr>))
             = after_second_fit"
    by (simp add: drand48_def after_first_fit_def after_second_fit_def Let_def)
  have r: "rand_future (after_first_fit\<lparr>drand48_X := srand48 0\<rparr>) = 846930886 ## sconst 0"
    by (simp add: after_first_fit_def)
  have u: "resize_vec (uninit after_second_fit) 2 [1, 0] = [1, 0]"
    by (simp add: resize_vec_2)
  show ?thesis
    unfolding Fit_again_two_points
    by (rule Cluster_KMEANSPP_two_points [OF _ u Cluster_loop_two_points_b])
       (simp add: KMeansPPInit_even [OF r] e)
qed

section \<open>Repeatability under the fixed seed (claim C2)\<close>

text \<open>
  With \<open>RANDOM\<close> initialisation every draw comes from \<open>drand48\<close>, which \<open>Cluster\<close>
  reseeds, and every centroid column and every label is overwritten before it is read: a
  call of \<open>Fit\<close> that completes is repeated by any other call on the same input, whatever
  the engine and the process went through before.
\<close>

lemma fold_random_coordinate_seed:
  assumes "drand48_X e = drand48_X e2"
  shows "fst (fold (random_coordinate mn mx) xs (v, e)) = fst (fold (random_coordinate mn mx) xs (v, e2))
       \<and> drand48_X (snd (fold (random_coordinate mn mx) xs (v, e)))
           = drand48_X (snd (fold (random_coordinate mn mx) xs (v, e2)))"
  using assms
proof (induction xs arbitrary: v e e2)
  case Nil
  then show ?case by simp
next
  case (Cons i xs)
  let ?x = "drand48_step (drand48_X e)"
  let ?v = "v[i := real ?x / 2 ^ 48 * (mx ! i - mn ! i) + mn ! i]"
  have a: "random_coordinate mn mx i (v, e) = (?v, e\<lparr>drand48_X := ?x\<rparr>)"
    by (simp add: random_coordinate_def drand48_def Let_def)
  have b: "random_coordinate mn mx i (v, e2) = (?v, e2\<lparr>drand48_X := ?x\<rparr>)"
    by (simp add: random_coordinate_def drand48_def Let_def Cons.prems [symmetric])
  have "drand48_X (e\<lparr>drand48_X := ?x\<rparr>) = drand48_X (e2\<lparr>drand48_X := ?x\<rparr>)" by simp
  from Cons.IH [OF this, of ?v] show ?case by (simp add: a b)
qed

lemma GetRandomPointInBounds_seed:
  assumes "drand48_X e = drand48_X e2"
  shows "fst (GetRandomPointInBounds X e) = fst (GetRandomPointInBounds X e2)
       \<and> drand48_X (snd (GetRandomPointInBounds X e)) = drand48_X (snd (GetRandomPointInBounds X e2))"
  unfolding GetRandomPointInBounds_def Let_def by (rule fold_random_coordinate_seed [OF assms])


lemma random_center_agree:
  assumes "agree S km km2" and "drand48_X e = drand48_X e2"
  shows "agree (insert i S) (fst (random_center X i (km, e))) (fst (random_center X i (km2, e2)))
       \<and> drand48_X (snd (random_center X i (km, e))) = drand48_X (snd (random_center X i (km2, e2)))"
proof -
  obtain p e' where g: "GetRandomPointInBounds X e = (p, e')" by (cases "GetRandomPointInBounds X e")
  obtain p2 e2' where g2: "GetRandomPointInBounds X e2 = (p2, e2')"
    by (cases "GetRandomPointInBounds X e2")
  from GetRandomPointInBounds_seed [OF assms(2), of X] g g2
  have eq: "p2 = p" "drand48_X e' = drand48_X e2'" by simp_all
  have upd: "(columns (centers km))[i := p] ! j = (columns (centers km2))[i := p] ! j"
    if "j \<in> insert i S" and "j < length (columns (centers km))" for j
  proof (cases "i < length (columns (centers km))")
    case True
    with assms(1) that show ?thesis
      by (cases "j = i") (simp_all add: agree_def)
  next
    case False
    with assms(1) that show ?thesis
      by (cases "j = i") (simp_all add: agree_def)
  qed
  with assms(1) show ?thesis
    by (simp add: random_center_def g g2 eq agree_def set_col_def)
qed

lemma fold_random_center_agree:
  assumes "agree S km km2" and "drand48_X e = drand48_X e2"
  shows "agree (S \<union> set xs) (fst (fold (random_center X) xs (km, e)))
           (fst (fold (random_center X) xs (km2, e2)))
       \<and> drand48_X (snd (fold (random_center X) xs (km, e)))
           = drand48_X (snd (fold (random_center X) xs (km2, e2)))"
  using assms
proof (induction xs arbitrary: S km km2 e e2)
  case Nil
  then show ?case by simp
next
  case (Cons i xs)
  obtain a ea where a: "random_center X i (km, e) = (a, ea)" by (cases "random_center X i (km, e)")
  obtain b eb where b: "random_center X i (km2, e2) = (b, eb)"
    by (cases "random_center X i (km2, e2)")
  from random_center_agree [OF Cons.prems, of i X] a b
  have "agree (insert i S) a b" "drand48_X ea = drand48_X eb" by simp_all
  from Cons.IH [OF this] show ?case by (simp add: a b)
qed

lemma fold_random_center_Labels:
  "Labels (fst (fold (random_center X) xs (km, e))) = Labels km"
  by (induction xs arbitrary: km e) (auto simp: random_center_def split: prod.splits)

lemma fold_random_center_cols:
  "length (columns (centers (fst (fold (random_center X) xs (km, e)))))
     = length (columns (centers km))"
  by (induction xs arbitrary: km e) (auto simp: random_center_def set_col_def split: prod.splits)

lemma RandomInit_agree:
  assumes "agree {} km km2" and "drand48_X e = drand48_X e2"
    and "length (columns (centers km)) = K km"
  shows "fst (RandomInit km2 e2 X) = (fst (RandomInit km e X))\<lparr>Labels := Labels km2\<rparr>"
proof -
  let ?a = "fst (RandomInit km e X)" and ?b = "fst (RandomInit km2 e2 X)"
  from assms(1) have k: "K km2 = K km" by (simp add: agree_def)
  from fold_random_center_agree [OF assms(1,2), of "[0..<K km]" X]
  have ag: "agree {0..<K km} ?a ?b"
    by (simp add: RandomInit_def k)
  then have len: "length (columns (centers ?a)) = length (columns (centers ?b))"
    by (simp add: agree_def)
  have la: "length (columns (centers ?a)) = K km"
    by (simp add: RandomInit_def fold_random_center_cols assms(3))
  have "columns (centers ?a) = columns (centers ?b)"
  proof (rule nth_equalityI)
    show "length (columns (centers ?a)) = length (columns (centers ?b))" by (rule len)
  next
    fix i assume "i < length (columns (centers ?a))"
    with ag la show "columns (centers ?a) ! i = columns (centers ?b) ! i"
      by (simp add: agree_def)
  qed
  with ag have "centers ?a = centers ?b" by (simp add: agree_def)
  moreover have "Labels ?b = Labels km2"
    by (simp add: RandomInit_def fold_random_center_Labels)
  ultimately show ?thesis using ag by (simp add: agree_def)
qed


lemma Cluster_loop_Labels:
  assumes "length (Labels km) = cols X" and "length ls = cols X"
  shows "Cluster_loop (km\<lparr>Labels := ls\<rparr>) X old iter = Cluster_loop km X old iter"
proof -
  have a: "AssignLabels (km\<lparr>Labels := ls\<rparr>) X = AssignLabels km X"
    by (simp add: AssignLabels_eq assms)
  show ?thesis
    by (subst Cluster_loop.simps, subst (2) Cluster_loop.simps) (simp only: a)
qed

lemma resize_matrix_shape:
  "rows (resize_matrix u r c M) = r" "length (columns (resize_matrix u r c M)) = c"
  by (simp_all add: resize_matrix_def cols_def)

lemma resize_vec_length: "length (resize_vec u n v) = n"
  by (simp add: resize_vec_def)

lemma Fit_RANDOM:
  assumes "InitMethod km = RANDOM" and "\<not> Random km" and "\<not> cols X < unsigned_int k"
  shows "Fit km e X k =
     (let km1 = km\<lparr>K := unsigned_int k,
                    centers := resize_matrix (uninit e) (rows X) (unsigned_int k) (centers km)\<rparr>;
          (km2, e2) = RandomInit km1 (e\<lparr>drand48_X := srand48 0\<rparr>) X
      in case Cluster_loop (km2\<lparr>Labels := resize_vec (uninit e2) (cols X) (Labels km2)\<rparr>) X
                (replicate (cols X) 0) 0 of
           None \<Rightarrow> None
         | Some (km3, iter) \<Rightarrow> Some (Inr (km3, e2, iter)))"
  using assms by (simp add: Fit_def Cluster_def initialise_def Let_def split: prod.splits)

lemma Fit_RANDOM_repeatable:
  assumes "InitMethod km = RANDOM" and "\<not> Random km"
    and "InitMethod km2 = RANDOM" and "\<not> Random km2"
    and "Fit km e X k = Some (Inr (km', e', n))"
  shows "\<exists>e2'. Fit km2 e2 X k = Some (Inr (km', e2', n))"
proof -
  let ?k = "unsigned_int k"
  let ?a = "km\<lparr>K := ?k, centers := resize_matrix (uninit e) (rows X) ?k (centers km)\<rparr>"
  let ?b = "km2\<lparr>K := ?k, centers := resize_matrix (uninit e2) (rows X) ?k (centers km2)\<rparr>"
  from assms(5) have big: "\<not> cols X < ?k"
    by (auto simp: Fit_def Cluster_def Let_def split: if_splits)
  obtain ra ea where ra: "RandomInit ?a (e\<lparr>drand48_X := srand48 0\<rparr>) X = (ra, ea)"
    by (cases "RandomInit ?a (e\<lparr>drand48_X := srand48 0\<rparr>) X")
  obtain rb eb where rb: "RandomInit ?b (e2\<lparr>drand48_X := srand48 0\<rparr>) X = (rb, eb)"
    by (cases "RandomInit ?b (e2\<lparr>drand48_X := srand48 0\<rparr>) X")
  have "agree {} ?a ?b"
    using assms(1-4) by (simp add: agree_def resize_matrix_shape)
  from RandomInit_agree [OF this, of "e\<lparr>drand48_X := srand48 0\<rparr>" "e2\<lparr>drand48_X := srand48 0\<rparr>" X]
  have rel: "rb = ra\<lparr>Labels := Labels km2\<rparr>"
    by (simp add: ra rb resize_matrix_shape)
  let ?la = "resize_vec (uninit ea) (cols X) (Labels ra)"
  let ?lb = "resize_vec (uninit eb) (cols X) (Labels rb)"
  have "Cluster_loop (rb\<lparr>Labels := ?lb\<rparr>) X (replicate (cols X) 0) 0
          = Cluster_loop (ra\<lparr>Labels := ?la\<rparr>\<lparr>Labels := ?lb\<rparr>) X (replicate (cols X) 0) 0"
    by (simp add: rel)
  also have "\<dots> = Cluster_loop (ra\<lparr>Labels := ?la\<rparr>) X (replicate (cols X) 0) 0"
    by (rule Cluster_loop_Labels) (simp_all add: resize_vec_length)
  finally have loops: "Cluster_loop (rb\<lparr>Labels := ?lb\<rparr>) X (replicate (cols X) 0) 0
          = Cluster_loop (ra\<lparr>Labels := ?la\<rparr>) X (replicate (cols X) 0) 0" .
  from assms(5) have "Cluster_loop (ra\<lparr>Labels := ?la\<rparr>) X (replicate (cols X) 0) 0 = Some (km', n)"
    by (simp add: Fit_RANDOM [OF assms(1,2) big] ra Let_def split: option.splits prod.splits)
  with loops have "Fit km2 e2 X k = Some (Inr (km', eb, n))"
    by (simp add: Fit_RANDOM [OF assms(3,4) big] rb Let_def)
  then show ?thesis ..
qed


text \<open>
  Claim C2: with the random mode flag false (fixed seed) and the initialisation method
  \<open>RANDOM\<close> or \<open>KMEANSPP\<close>, two successive \<open>Fit\<close> calls on the identical input
  produce identical label vectors. The field's own comment says: if false, then it is
  repeatable. For \<open>RANDOM\<close> this is the lemma above. For \<open>KMEANSPP\<close>, \<open>Cluster\<close>
  reseeds only \<open>drand48\<close> (\<open>srand48(0)\<close>), while \<open>KMeansPPInit\<close> takes its first
  centre from \<open>rand()\<close>, whose state runs on from one call to the next. On the samples 0
  and 10 with \<open>K = 2\<close>, in a process whose \<open>rand()\<close> returns an odd and then an even
  value, the first call labels the samples \<open>[1, 0]\<close> and the second call labels them
  \<open>[0, 1]\<close>.
\<close>

theorem Fit_twice_KMEANSPP_labels_differ:
  "Fit_twice fresh_engine process_start two_points 2 = Some ([1, 0], [0, 1])"
  by (simp add: Fit_twice_def first_Fit second_Fit GetLabels_def engine_1d_sel)

section \<open>The shape of the centroid matrix\<close>

text \<open>
  The update step and the assignment step are stated for a centroid matrix of \<open>K\<close>
  columns and a label vector of one entry per sample. \<open>Fit\<close> sets up both shapes and no
  step of the loop changes them.
\<close>

lemma AssignLabels_centers [simp]: "centers (AssignLabels km X) = centers km"
  by (simp add: AssignLabels_def fold_assign_point)

lemma EstimateNewCenters_cols [simp]: "cols (centers (EstimateNewCenters km X)) = cols (centers km)"
  by (simp add: EstimateNewCenters_def fold_update_center cols_def fold_update_length)

lemma Cluster_loop_shape:
  assumes "Cluster_loop km X old iter = Some y"
  shows "cols (centers (fst y)) = cols (centers km)"
proof (rule Cluster_loop.raw_induct [where P = "\<lambda>km X old iter y.
           cols (centers (fst y)) = cols (centers km)", OF _ assms])
  fix loop :: "KMeans \<Rightarrow> real matrix \<Rightarrow> vec \<Rightarrow> nat \<Rightarrow> (KMeans \<times> nat) option"
  fix km X old iter y
  let ?km2 = "EstimateNewCenters (AssignLabels km X) X"
  assume IH: "\<And>km X old iter y. loop km X old iter = Some y \<Longrightarrow>
           cols (centers (fst y)) = cols (centers km)"
  assume body: "(let km1 = AssignLabels km X;
          km2 = EstimateNewCenters km1 X;
          changed = CheckChanged (Labels km2) old
      in if changed then loop km2 X (Labels km2) (iter + 1)
         else Some (km2, iter + 1)) = Some y"
  show "cols (centers (fst y)) = cols (centers km)"
  proof (cases "CheckChanged (Labels ?km2) old")
    case True
    with body have "loop ?km2 X (Labels ?km2) (iter + 1) = Some y" by (simp add: Let_def)
    from IH [OF this] show ?thesis by simp
  next
    case False
    with body have "y = (?km2, iter + 1)" by (simp add: Let_def)
    then show ?thesis by simp
  qed
qed

lemma RandomInit_cols: "RandomInit km e X = (km', e') \<Longrightarrow> cols (centers km') = cols (centers km)"
  using fold_random_center_cols [of X "[0..<K km]" km e] by (simp add: RandomInit_def cols_def)

lemma pp_centers_cols:
  "pp_centers cs X w km e = Inr (km', e') \<Longrightarrow> cols (centers km') = cols (centers km)"
proof (induction cs X w km e rule: pp_centers.induct)
  case (1 X w km e)
  then show ?case by simp
next
  case (2 cluster rest X w km e)
  then show ?case
    by (auto simp: Let_def cols_def set_col_def split: prod.splits sum.splits)
qed

lemma KMeansPPInit_cols:
  "KMeansPPInit km e X = Inr (km', e') \<Longrightarrow> cols (centers km') = cols (centers km)"
  by (auto simp: KMeansPPInit_def Let_def cols_def set_col_def split: prod.splits if_splits
        dest!: pp_centers_cols)

lemma initialise_cols:
  "initialise km e X = Inr (km', e') \<Longrightarrow> cols (centers km') = cols (centers km)"
  by (auto simp: initialise_def split: if_splits dest: RandomInit_cols KMeansPPInit_cols)

text \<open>Whenever \<open>Fit\<close> completes, the centroid matrix has \<open>K\<close> columns.\<close>

lemma Fit_centers_shape:
  assumes "Fit km e X k = Some (Inr (km', e', iter))"
  shows "cols (centers km') = unsigned_int k"
proof -
  let ?km = "km\<lparr>K := unsigned_int k,
                 centers := resize_matrix (uninit e) (rows X) (unsigned_int k) (centers km)\<rparr>"
  let ?e1 = "e\<lparr>drand48_X := srand48 (if Random ?km then clock e else 0)\<rparr>"
  from assms have c: "Cluster ?km e X = Some (Inr (km', e', iter))"
    by (simp add: Fit_def Let_def)
  then obtain km1 e2 where init: "initialise ?km ?e1 X = Inr (km1, e2)"
    and loop: "Cluster_loop (km1\<lparr>Labels := resize_vec (uninit e2) (cols X) (Labels km1)\<rparr>) X
                 (replicate (cols X) 0) 0 = Some (km', iter)"
    by (auto simp: Cluster_def Let_def split: if_splits sum.splits option.splits prod.splits)
  from Cluster_loop_shape [OF loop] initialise_cols [OF init] show ?thesis
    by (simp add: cols_def resize_matrix_shape)
qed

section \<open>The configuration check (claim C5)\<close>

text \<open>
  Claim C5: for every dataset and \<open>K\<close> greater than the sample count, \<open>Fit\<close> fails with
  the configuration error before any initialisation, assignment or iteration: the labels
  and the state of both random generators are as before the call, and only \<open>K\<close> and the
  shape of the centroid matrix, which \<open>Fit\<close> sets before it calls \<open>Cluster\<close>, have
  changed. In particular \<open>K = 3\<close> on a dataset of two samples fails this way.
\<close>

theorem Fit_too_few_points:
  assumes "cols X < unsigned_int k"
  shows "Fit km e X k =
           Some (Inl (TooFewPoints (cols X) (unsigned_int k),
                      km\<lparr>K := unsigned_int k,
                         centers := resize_matrix (uninit e) (rows X) (unsigned_int k) (centers km)\<rparr>,
                      e))"
  using assms by (simp add: Fit_def Cluster_def Let_def)

theorem Fit_too_few_points_witness:
  "cols two_points < unsigned_int 3
   \<and> Fit fresh_engine process_start two_points 3 =
       Some (Inl (TooFewPoints 2 3,
                  fresh_engine\<lparr>K := 3, centers := \<lparr>rows = 1, columns = [[0], [0], [0]]\<rparr>\<rparr>,
                  process_start))"
proof -
  have c: "cols two_points < unsigned_int 3"
    by (simp add: two_points_cols unsigned_int_def)
  have "[0..<3] = [0, 1, 2]" by (simp add: upt_rec)
  then have "resize_matrix (uninit process_start) (rows two_points) (unsigned_int 3) (centers fresh_engine)
          = \<lparr>rows = 1, columns = [[0], [0], [0]]\<rparr>"
    by (simp add: resize_matrix_def two_points_def fresh_engine_def process_start_def
          unsigned_int_def cols_def)
  with Fit_too_few_points [OF c, of fresh_engine process_start] c show ?thesis
    by (simp add: two_points_cols unsigned_int_def)
qed

section \<open>The label invariants (claim C8)\<close>

lemma Cluster_loop_no_cluster:
  "Cluster_loop (engine_1d [a] m 0 []) one_point [0] 0 = Some (engine_1d [0] m 0 [], 1)"
proof -
  have al: "AssignLabels (engine_1d [a] m 0 []) one_point = engine_1d [0] m 0 []"
    by (subst AssignLabels_eq)
       (simp_all add: engine_1d_def one_point_def cols_def FindClosestCluster_def)
  have en: "EstimateNewCenters (engine_1d [0] m 0 []) one_point = engine_1d [0] m 0 []"
    by (subst EstimateNewCenters_eq) (simp_all add: engine_1d_def cols_def)
  have c: "\<not> CheckChanged (Labels (engine_1d [0] m 0 [])) [0]"
    by (simp add: engine_1d_def CheckChanged_def)
  show ?thesis by (simp add: Cluster_loop_done [OF al en c])
qed

lemma Fit_no_cluster:
  "Fit (SetInitMethod fresh_engine RANDOM) e one_point 0
     = Some (Inr (engine_1d [0] RANDOM 0 [], e\<lparr>drand48_X := srand48 0\<rparr>, 1))"
proof -
  have "Fit (SetInitMethod fresh_engine RANDOM) e one_point 0
     = (case Cluster_loop (engine_1d [uninit e 0] RANDOM 0 []) one_point [0] 0 of None \<Rightarrow> None
         | Some (km3, iter) \<Rightarrow> Some (Inr (km3, e\<lparr>drand48_X := srand48 0\<rparr>, iter)))"
    by (simp add: Fit_def Cluster_def initialise_def RandomInit_def fresh_engine_def one_point_def
          SetInitMethod_def engine_1d_def unsigned_int_def resize_matrix_def resize_vec_def cols_def Let_def)
  then show ?thesis by (simp add: Cluster_loop_no_cluster)
qed

text \<open>
  Claim C8, as the specification states it: for every valid input (\<open>K\<close> at most the sample
  count, reachable initialisation method), whenever \<open>Fit\<close> completes, every entry of the
  label vector lies in \<open>[0,K)\<close>. \<open>K = 0\<close> is at most every sample count, and \<open>Fit\<close> has
  no check against it: on one sample with \<open>RANDOM\<close> initialisation it completes after one
  round with the label \<open>0\<close>, which is not below \<open>K = 0\<close>.
\<close>

theorem Fit_no_cluster_label_counterexample:
  "unsigned_int 0 \<le> cols one_point
   \<and> Fit (SetInitMethod fresh_engine RANDOM) process_start one_point 0
       = Some (Inr (engine_1d [0] RANDOM 0 [], process_start\<lparr>drand48_X := srand48 0\<rparr>, 1))
   \<and> \<not> labels_in_range (engine_1d [0] RANDOM 0 [])"
  by (simp add: Fit_no_cluster labels_in_range_def engine_1d_def unsigned_int_def)

text \<open>
  Claim C8, amended: for every input with \<open>K\<close> at least 1, whenever \<open>Fit\<close> completes,
  every entry of the returned label vector lies in \<open>[0,K)\<close> and the length of the label
  vector equals the sample count; and every assignment step, run on a label vector of that
  length with \<open>K\<close> at least 1, gives a label vector with these two properties.
\<close>

theorem Fit_labels_invariant:
  assumes "0 < unsigned_int k" and "Fit km e X k = Some (Inr (km', e', iter))"
  shows "K km' = unsigned_int k \<and> length (GetLabels km') = cols X \<and> labels_in_range km'
         \<and> (length (Labels km1) = cols X \<and> 0 < K km1 \<longrightarrow>
              length (Labels (AssignLabels km1 X)) = cols X \<and> labels_in_range (AssignLabels km1 X))"
proof -
  let ?km = "km\<lparr>K := unsigned_int k,
                 centers := resize_matrix (uninit e) (rows X) (unsigned_int k) (centers km)\<rparr>"
  from assms(2) have "Cluster ?km e X = Some (Inr (km', e', iter))"
    by (simp add: Fit_def Let_def)
  from Cluster_labels [OF this] assms(1)
  have "K km' = unsigned_int k \<and> length (GetLabels km') = cols X \<and> labels_in_range km'"
    by (simp add: GetLabels_def labels_in_range_def list_all_iff)
  moreover have "length (Labels (AssignLabels km1 X)) = cols X \<and> labels_in_range (AssignLabels km1 X)"
    if "length (Labels km1) = cols X \<and> 0 < K km1"
    using that AssignLabels_range [of km1 X]
    by (simp add: labels_in_range_def list_all_iff)
  ultimately show ?thesis by blast
qed

theorem Fit_labels_invariant_witness:
  "0 < unsigned_int 2
   \<and> Fit fresh_engine process_start two_points 2
       = Some (Inr (engine_1d [1, 0] KMEANSPP 2 [[10], [0]], after_first_fit, 2))
   \<and> length (GetLabels (engine_1d [1, 0] KMEANSPP 2 [[10], [0]])) = cols two_points
   \<and> labels_in_range (engine_1d [1, 0] KMEANSPP 2 [[10], [0]])
   \<and> labels_in_range (AssignLabels (engine_1d [0, 0] KMEANSPP 2 [[10], [0]]) two_points)"
proof -
  have k: "0 < unsigned_int 2" by (simp add: unsigned_int_def)
  have l: "length (Labels (engine_1d [0, 0] KMEANSPP 2 [[10], [0]])) = cols two_points
           \<and> 0 < K (engine_1d [0, 0] KMEANSPP 2 [[10], [0]])"
    by (simp add: engine_1d_sel two_points_cols)
  from Fit_labels_invariant [OF k first_Fit, of "engine_1d [0, 0] KMEANSPP 2 [[10], [0]]"] k l
  show ?thesis by (simp add: first_Fit)
qed

section \<open>The variance diagnostic (claim C4)\<close>

lemma fold_add_error:
  "fold (add_error X c idx) [0..<n] v
     = v + sum_list (map (\<lambda>j. norm_v (vsub c (col X (idx ! j)))) [0..<n])"
  by (induction n) (simp_all add: add_error_def)

lemma cluster_variance_eq:
  "cluster_variance km X i =
     (if GetIndicesWithLabel km (real i) = [] then None
      else Some (spec_cluster_variance km X i))"
proof -
  let ?idx = "GetIndicesWithLabel km (real i)"
  have "map (\<lambda>j. norm_v (vsub (col (centers km) i) (col X (?idx ! j)))) [0..<length ?idx]
          = map (\<lambda>p. norm_v (vsub (col (centers km) i) (col X p))) ?idx"
    by (rule nth_equalityI) simp_all
  then show ?thesis
    by (simp add: cluster_variance_def spec_cluster_variance_def fold_add_error fdiv_def Let_def)
qed

lemma fold_add_variance:
  "fold (add_variance km X) [0..<n] (Some a) =
     (if \<exists>c<n. GetIndicesWithLabel km (real c) = [] then None
      else Some (a + sum_list (map (spec_cluster_variance km X) [0..<n])))"
proof (induction n)
  case 0
  show ?case by simp
next
  case (Suc n)
  let ?before = "if \<exists>c<n. GetIndicesWithLabel km (real c) = [] then None
      else Some (a + sum_list (map (spec_cluster_variance km X) [0..<n]))"
  have "fold (add_variance km X) [0..<Suc n] (Some a)
          = add_variance km X n (fold (add_variance km X) [0..<n] (Some a))"
    by simp
  also have "\<dots> = fadd ?before (cluster_variance km X n)"
    by (simp only: Suc.IH add_variance_def)
  also have "\<dots> = (if \<exists>c<Suc n. GetIndicesWithLabel km (real c) = [] then None
      else Some (a + sum_list (map (spec_cluster_variance km X) [0..<Suc n])))"
    by (auto simp: cluster_variance_eq fadd_def less_Suc_eq add.assoc)
  finally show ?case .
qed

text \<open>
  The diagnostic is the sum of the per-cluster means exactly when no cluster is empty; one
  empty cluster makes the whole result non-finite.
\<close>

lemma ComputeMLEVariance_eq:
  "ComputeMLEVariance km X =
     (if \<exists>c<K km. GetIndicesWithLabel km (real c) = [] then None
      else Some (spec_MLEVariance km X))"
  by (simp add: ComputeMLEVariance_def spec_MLEVariance_def fold_add_variance)

lemma random_point_coincident:
  "GetRandomPointInBounds coincident_points e = ([5], snd (drand48 e))"
  by (cases "drand48 e")
     (simp add: GetRandomPointInBounds_def random_coordinate_def coincident_points_def row_of_def
        minCoeff_def maxCoeff_def Let_def)

lemma RandomInit_coincident:
  "RandomInit (engine_1d ls m 2 [c0, c1]) e coincident_points
     = (engine_1d ls m 2 [[5], [5]], snd (drand48 (snd (drand48 e))))"
  by (simp add: RandomInit_def random_center_def random_point_coincident engine_1d_def set_col_def
        upt_0_2)

lemma Cluster_loop_coincident:
  "Cluster_loop (engine_1d [a, b] m 2 [[5], [5]]) coincident_points [0, 0] 0
     = Some (engine_1d [0, 0] m 2 [[5], [5]], 1)"
proof -
  have al: "AssignLabels (engine_1d [a, b] m 2 [[5], [5]]) coincident_points
              = engine_1d [0, 0] m 2 [[5], [5]]"
    by (subst AssignLabels_eq) (simp_all add: engine_1d_def coincident_points_def eval_defs)
  have en: "EstimateNewCenters (engine_1d [0, 0] m 2 [[5], [5]]) coincident_points
              = engine_1d [0, 0] m 2 [[5], [5]]"
    by (subst EstimateNewCenters_eq) (simp_all add: engine_1d_def coincident_points_def eval_defs)
  have c: "\<not> CheckChanged (Labels (engine_1d [0, 0] m 2 [[5], [5]])) [0, 0]"
    by (simp add: engine_1d_def CheckChanged_def)
  show ?thesis by (simp add: Cluster_loop_done [OF al en c])
qed

lemma Fit_coincident:
  "Fit (SetInitMethod fresh_engine RANDOM) e coincident_points 2
     = Some (Inr (engine_1d [0, 0] RANDOM 2 [[5], [5]],
                  snd (drand48 (snd (drand48 (e\<lparr>drand48_X := srand48 0\<rparr>)))), 1))"
proof -
  have f: "Fit (SetInitMethod fresh_engine RANDOM) e coincident_points 2
     = Cluster (engine_1d [] RANDOM 2 [[uninit e 0], [uninit e (Suc 0)]]) e coincident_points"
    by (simp add: Fit_def fresh_engine_def SetInitMethod_def coincident_points_def engine_1d_def
        unsigned_int_def resize_matrix_def cols_def Let_def upt_0_2)
  have c: "cols coincident_points = 2" by (simp add: coincident_points_def cols_def)
  show ?thesis
    unfolding f Cluster_def
    by (simp add: initialise_def engine_1d_sel c RandomInit_coincident Let_def replicate_2
          resize_vec_2 Cluster_loop_coincident)
qed

text \<open>
  Claim C4: \<open>ComputeMLEVariance\<close> returns the sum over all \<open>K\<close> clusters of the per-cluster
  mean of the distances of the members to the centroid, and a cluster with no members
  contributes exactly zero. The code sets \<open>variance = 0\<close> for such a cluster and then
  still divides it by the member count \<open>0\<close>. After \<open>Fit\<close> with \<open>RANDOM\<close> initialisation
  and \<open>K = 2\<close> on a dataset that holds the sample 5 twice, both centroids are 5, both
  samples have label 0 and cluster 1 is empty: the sum the claim describes is \<open>0\<close>, and
  the code returns the non-finite value.
\<close>

theorem ComputeMLEVariance_empty_cluster:
  "Fit (SetInitMethod fresh_engine RANDOM) process_start coincident_points 2
     = Some (Inr (engine_1d [0, 0] RANDOM 2 [[5], [5]],
                  snd (drand48 (snd (drand48 (process_start\<lparr>drand48_X := srand48 0\<rparr>)))), 1))
   \<and> GetIndicesWithLabel (engine_1d [0, 0] RANDOM 2 [[5], [5]]) (real 1) = []
   \<and> spec_MLEVariance (engine_1d [0, 0] RANDOM 2 [[5], [5]]) coincident_points = 0
   \<and> ComputeMLEVariance (engine_1d [0, 0] RANDOM 2 [[5], [5]]) coincident_points = None"
proof -
  let ?km = "engine_1d [0, 0] RANDOM 2 [[5], [5]]"
  have "GetIndicesWithLabel ?km (real 1) = []"
    by (simp add: GetIndicesWithLabel_def engine_1d_def upt_0_2)
  moreover have "spec_MLEVariance ?km coincident_points = 0"
    by (simp add: spec_MLEVariance_def spec_cluster_variance_def engine_1d_def
          coincident_points_def GetIndicesWithLabel_def col_def vsub_def norm_v_single upt_0_2 Let_def)
  moreover have "ComputeMLEVariance ?km coincident_points = None"
    by (simp add: ComputeMLEVariance_def add_variance_def cluster_variance_def add_error_def
          fdiv_def fadd_def engine_1d_def coincident_points_def GetIndicesWithLabel_def col_def
          vsub_def norm_v_single upt_0_2 Let_def)
  ultimately show ?thesis by (simp add: Fit_coincident)
qed

section \<open>The matrix operations of the collaborator library (claim C9)\<close>

lemma Add_mismatch:
  "rows a \<noteq> rows b \<or> cols a \<noteq> cols b \<Longrightarrow> Add a b = Inl (Exit ''MATRICIES ARE NOT THE SAME SIZE'')"
  by (simp add: Add_def)

lemma LogicalAnd_mismatch:
  "rows a \<noteq> rows b \<or> cols a \<noteq> cols b \<Longrightarrow>
     LogicalAnd a b = Inl (Exit ''MATRICES ARE NOT THE SAME SIZE!'')"
  by (simp add: LogicalAnd_def)

lemma Add_no_rows:
  "rows a = rows b \<Longrightarrow> cols a = cols b \<Longrightarrow> rows a = 0 \<Longrightarrow> Add a b = Inl (Exit ''MATRICIES ARE EMPTY'')"
  by (simp add: Add_def)

text \<open>
  Claim C9: \<open>Add\<close> and \<open>LogicalAnd\<close> report a fatal error instead of producing a result
  whenever the operands' sizes mismatch or an operand is empty (zero rows or columns).
  Both do so on a size mismatch. On empty operands of equal size \<open>Add\<close> tests only
  \<open>a.rows() == 0\<close> and \<open>LogicalAnd\<close> tests nothing, while their siblings \<open>Subtract\<close> and
  \<open>LogicalOr\<close> test rows and columns of both operands: \<open>Add\<close> of two matrices with two
  rows and no column returns a matrix, and so does \<open>LogicalAnd\<close> of two matrices with no
  rows and no columns, where the siblings exit.
\<close>

theorem Add_LogicalAnd_empty_operands:
  "Add \<lparr>rows = 2, columns = []\<rparr> \<lparr>rows = 2, columns = []\<rparr> = Inr \<lparr>rows = 2, columns = []\<rparr>
   \<and> Subtract \<lparr>rows = 2, columns = []\<rparr> \<lparr>rows = 2, columns = []\<rparr>
       = Inl (Exit ''EMPTY MATRIX AS ARGUMENT!'')
   \<and> LogicalAnd \<lparr>rows = 0, columns = []\<rparr> \<lparr>rows = 0, columns = []\<rparr>
       = Inr \<lparr>rows = 0, columns = []\<rparr>
   \<and> LogicalOr \<lparr>rows = 0, columns = []\<rparr> \<lparr>rows = 0, columns = []\<rparr>
       = Inl (Exit ''EMPTY MATRIX AS ARGUMENT!'')"
  by (simp add: Add_def Subtract_def LogicalAnd_def LogicalOr_def cols_def)

theorem Add_LogicalAnd_empty_operands_witness:
  "rows \<lparr>rows = 2 :: nat, columns = [] :: real list list\<rparr> = 2
   \<and> cols \<lparr>rows = 2 :: nat, columns = [] :: real list list\<rparr> = 0
   \<and> Add \<lparr>rows = 2, columns = []\<rparr> \<lparr>rows = 2, columns = []\<rparr> = Inr \<lparr>rows = 2, columns = []\<rparr>
   \<and> LogicalAnd \<lparr>rows = 0, columns = []\<rparr> \<lparr>rows = 0, columns = []\<rparr>
       = Inr \<lparr>rows = 0, columns = []\<rparr>"
  using Add_LogicalAnd_empty_operands by (simp add: cols_def)

end
